theory Spec2Isabelle
  imports Main "HOL-Library.Word" "HOL-Library.Multiset"
begin

unbundle bit_operations_syntax

section \<open>Basic types\<close>

type_synonym uint32 = "32 word"
type_synonym int64 = "64 word"
type_synonym bytes = "8 word list"

text \<open>A Go \<open>error\<close> value of a foreign package is kept as its message text.\<close>

type_synonym go_error = string

text \<open>Two readings of Go's \<open>string\<close> in the signatures: a user name, a hex-encoded key.\<close>

type_synonym username = string
type_synonym hexkey = string

section \<open>The errors package\<close>

text \<open>
  Modelled from the spec: the package \<open>lino-go/errors\<close> is imported by the broadcast
  package but is not among the sources. Section 7 of the specification lists the classes
  \<open>Timeout{cause}\<close>, \<open>SequenceConflict{code, log}\<close>, \<open>MempoolRejected{code, log}\<close>,
  \<open>ExecutionRejected{code, log}\<close>, \<open>KeyDecodeError{cause}\<close> and the transport failure;
  the constructors below carry the names the broadcast package calls them by, and the
  three \<open>Add...\<close> functions set the field they name.
\<close>

datatype CodeType =
    CodeTimeout
  | CodeFailedToBroadcast
  | CodeInvalidSequenceNumber
  | CodeCheckTxFail
  | CodeDeliverTxFail
  | CodeFailedToGetPubKeyFromHex

record Error =
  errCode :: CodeType
  errMsg :: string
  errCause :: "go_error option"
  blockChainCode :: uint32
  blockChainLog :: string

definition NewError :: "CodeType \<Rightarrow> string \<Rightarrow> Error" where
  "NewError c m =
     \<lparr>errCode = c, errMsg = m, errCause = None, blockChainCode = 0, blockChainLog = []\<rparr>"

definition Timeoutf :: "string \<Rightarrow> string \<Rightarrow> Error" where
  "Timeoutf prefix rendered = NewError CodeTimeout (prefix @ rendered)"

definition FailedToBroadcast :: "string \<Rightarrow> Error" where
  "FailedToBroadcast m = NewError CodeFailedToBroadcast m"

definition InvalidSequenceNumber :: "string \<Rightarrow> Error" where
  "InvalidSequenceNumber m = NewError CodeInvalidSequenceNumber m"

definition CheckTxFail :: "string \<Rightarrow> Error" where
  "CheckTxFail m = NewError CodeCheckTxFail m"

definition DeliverTxFail :: "string \<Rightarrow> Error" where
  "DeliverTxFail m = NewError CodeDeliverTxFail m"

definition FailedToGetPubKeyFromHex :: "string \<Rightarrow> Error" where
  "FailedToGetPubKeyFromHex m = NewError CodeFailedToGetPubKeyFromHex m"

text \<open>The formatting variant, called in the sources with a format that has no verb.\<close>

definition FailedToGetPubKeyFromHexf :: "string \<Rightarrow> Error" where
  "FailedToGetPubKeyFromHexf format = NewError CodeFailedToGetPubKeyFromHex format"

definition AddCause :: "Error \<Rightarrow> go_error \<Rightarrow> Error" where
  "AddCause e c = e\<lparr>errCause := Some c\<rparr>"

definition AddBlockChainCode :: "Error \<Rightarrow> uint32 \<Rightarrow> Error" where
  "AddBlockChainCode e c = e\<lparr>blockChainCode := c\<rparr>"

definition AddBlockChainLog :: "Error \<Rightarrow> string \<Rightarrow> Error" where
  "AddBlockChainLog e l = e\<lparr>blockChainLog := l\<rparr>"

section \<open>Hexadecimal rendering of the commit hash\<close>

text \<open>
  Go's \<open>encoding/hex\<close>: every byte gives two characters of \<open>hextable\<close>, the high
  nibble first.
\<close>

definition hextable :: string where
  "hextable = ''0123456789abcdef''"

fun EncodeToString :: "bytes \<Rightarrow> string" where
  "EncodeToString [] = []"
| "EncodeToString (v # src) =
     hextable ! unat (drop_bit 4 v) # hextable ! unat (v AND 0x0f) # EncodeToString src"

text \<open>
  Go's \<open>strings.ToUpper\<close> on a string of ASCII bytes: a byte between \<open>a\<close> and \<open>z\<close>
  loses \<open>'a' - 'A' = 32\<close>, every other byte stays. The only argument it gets in this
  package is the output of \<open>EncodeToString\<close>, which is ASCII (lemma
  \<open>EncodeToString_hexdigits\<close> below), so the Unicode path of the library is never taken.
\<close>

definition toUpperByte :: "char \<Rightarrow> char" where
  "toUpperByte c =
     (let n = (of_char c :: nat) in if 97 \<le> n \<and> n \<le> 122 then char_of (n - 32) else c)"

definition ToUpper :: "string \<Rightarrow> string" where
  "ToUpper s = map toUpperByte s"

text \<open>
  The rendering the specification names: "an uppercase hex string", two digits of
  \<open>0123456789ABCDEF\<close> for each byte.
\<close>

definition upperHexTable :: string where
  "upperHexTable = ''0123456789ABCDEF''"

fun upperHex :: "bytes \<Rightarrow> string" where
  "upperHex [] = []"
| "upperHex (v # src) =
     upperHexTable ! (unat v div 16) # upperHexTable ! (unat v mod 16) # upperHex src"

section \<open>Messages\<close>

type_synonym PubKey = bytes

record IDToURLMapping =
  Identifier :: string
  URL :: string

record RegisterMsg =
  reg_Referrer :: string
  reg_RegisterFee :: string
  reg_NewUser :: string
  reg_NewResetPubKey :: PubKey
  reg_NewTransactionPubKey :: PubKey
  reg_NewAppPubKey :: PubKey

record RecoverMsg =
  rec_Username :: string
  rec_NewResetPubKey :: PubKey
  rec_NewTransactionPubKey :: PubKey
  rec_NewAppPubKey :: PubKey

record CreatePostMsg =
  Author :: string
  PostID :: string
  Title :: string
  Content :: string
  ParentAuthor :: string
  ParentPostID :: string
  SourceAuthor :: string
  SourcePostID :: string
  Links :: "IDToURLMapping list"
  RedistributionSplitRate :: string

record ValidatorDepositMsg =
  val_Username :: string
  val_Deposit :: string
  val_ValPubKey :: PubKey
  val_Link :: string

record RevokePermissionMsg =
  rev_Username :: string
  rev_PubKey :: PubKey

text \<open>
  \<open>model.Msg\<close> is an interface; the variants are the message structs built by the
  operations modelled in this theory.
\<close>

datatype Msg =
    MsgRegister RegisterMsg
  | MsgRecover RecoverMsg
  | MsgCreatePost CreatePostMsg
  | MsgValidatorDeposit ValidatorDepositMsg
  | MsgRevokePermission RevokePermissionMsg

section \<open>Broadcast responses\<close>

text \<open>
  The two response structs of the node's RPC client, with the fields
  \<open>broadcastTransaction\<close> reads.
\<close>

record ResultBroadcastTx =
  tx_Code :: uint32
  tx_Log :: string
  tx_Hash :: bytes

record ResponseCheckTx =
  check_Code :: uint32
  check_Log :: string

record ResponseDeliverTx =
  deliver_Code :: uint32
  deliver_Log :: string

record ResultBroadcastTxCommit =
  CheckTx :: ResponseCheckTx
  DeliverTx :: ResponseDeliverTx
  commit_Hash :: bytes

text \<open>
  The \<open>interface{}\<close> value that \<open>SignBuildBroadcast\<close> returns: nil, or a pointer to one
  of the two response structs. A pointer held by the interface points to a struct.
\<close>

datatype BroadcastResult =
    NilResult
  | PtrResultBroadcastTx ResultBroadcastTx
  | PtrResultBroadcastTxCommit ResultBroadcastTxCommit

record BroadcastResponse =
  CommitHash :: string

section \<open>The broadcast pipeline\<close>

text \<open>
  \<open>broadcastTransaction\<close> starts \<open>transport.SignBuildBroadcast\<close> in a goroutine and
  waits in a \<open>select\<close> for its completion or for the context. The five-argument
  \<open>SignBuildBroadcast\<close>, the key parser \<open>transport.GetPubKeyFromHex\<close> and the \<open>%v\<close>
  rendering of a message are behaviour outside the sources, so they are fields of the
  environment. Which case of the \<open>select\<close> is taken is an input of the model;
  \<open>CtxDone\<close> carries \<open>ctx.Err()\<close>.
\<close>

record Broadcast =
  transport_SignBuildBroadcast ::
    "Msg \<Rightarrow> hexkey \<Rightarrow> int64 \<Rightarrow> string \<Rightarrow> bool \<Rightarrow> BroadcastResult \<times> go_error option"
  transport_GetPubKeyFromHex :: "hexkey \<Rightarrow> go_error + PubKey"
  Sprintv :: "Msg \<Rightarrow> string"

datatype select_case = FinishChan | CtxDone go_error

text \<open>The calls of the transport that an operation has started, in order.\<close>

datatype transport_call = SignBuildBroadcastCall Msg hexkey int64 string bool

definition InvalidSeqErrCode :: uint32 where
  "InvalidSeqErrCode = 154"

definition retrieveCodeFromBlockChainCode :: "uint32 \<Rightarrow> uint32" where
  "retrieveCodeFromBlockChainCode bcCode = bcCode AND 0xff"

definition parseFailure :: Error where
  "parseFailure = FailedToBroadcast ''error to parse the broadcast response''"

definition interpretCheckTxOnly ::
  "BroadcastResult \<Rightarrow> go_error option \<Rightarrow> Error + BroadcastResponse" where
  "interpretCheckTxOnly res0 err =
     (case res0 of
        PtrResultBroadcastTx res \<Rightarrow>
          (let code = retrieveCodeFromBlockChainCode (tx_Code res) in
           if err = None \<and> code = InvalidSeqErrCode then
             Inl (AddBlockChainLog
                    (AddBlockChainCode (InvalidSequenceNumber ''invalid seq'') (tx_Code res))
                    (tx_Log res))
           else if tx_Code res \<noteq> 0 then
             Inl (AddBlockChainLog
                    (AddBlockChainCode (CheckTxFail ''CheckTx failed!'') (tx_Code res))
                    (tx_Log res))
           else if tx_Code res \<noteq> 0 then
             Inl (AddBlockChainLog
                    (AddBlockChainCode (DeliverTxFail ''DeliverTx failed!'') (tx_Code res))
                    (tx_Log res))
           else Inr \<lparr>CommitHash = ToUpper (EncodeToString (tx_Hash res))\<rparr>)
      | _ \<Rightarrow> Inl parseFailure)"

definition interpretCommit ::
  "BroadcastResult \<Rightarrow> go_error option \<Rightarrow> Error + BroadcastResponse" where
  "interpretCommit res0 err =
     (case res0 of
        PtrResultBroadcastTxCommit res \<Rightarrow>
          (let code = retrieveCodeFromBlockChainCode (check_Code (CheckTx res)) in
           if err = None \<and> code = InvalidSeqErrCode then
             Inl (AddBlockChainLog
                    (AddBlockChainCode (InvalidSequenceNumber ''invalid seq'')
                       (check_Code (CheckTx res)))
                    (check_Log (CheckTx res)))
           else if check_Code (CheckTx res) \<noteq> 0 then
             Inl (AddBlockChainLog
                    (AddBlockChainCode (CheckTxFail ''CheckTx failed!'')
                       (check_Code (CheckTx res)))
                    (check_Log (CheckTx res)))
           else if deliver_Code (DeliverTx res) \<noteq> 0 then
             Inl (AddBlockChainLog
                    (AddBlockChainCode (DeliverTxFail ''DeliverTx failed!'')
                       (deliver_Code (DeliverTx res)))
                    (deliver_Log (DeliverTx res)))
           else Inr \<lparr>CommitHash = ToUpper (EncodeToString (commit_Hash res))\<rparr>)
      | _ \<Rightarrow> Inl parseFailure)"

text \<open>
  The result is the pair (response, error) of the source as a sum: every error return
  of the source returns a nil response, the last return a nil error. The second
  component lists the transport calls started.
\<close>

definition broadcastTransaction ::
  "Broadcast \<Rightarrow> select_case \<Rightarrow> Msg \<Rightarrow> hexkey \<Rightarrow> int64 \<Rightarrow> string \<Rightarrow> bool \<Rightarrow>
     (Error + BroadcastResponse) \<times> transport_call list" where
  "broadcastTransaction broadcast ctx msg privKeyHex seq memo checkTxOnly =
     (let (res, err) = transport_SignBuildBroadcast broadcast msg privKeyHex seq memo checkTxOnly
      in ((case ctx of
             CtxDone ctxErr \<Rightarrow>
               Inl (AddCause (Timeoutf ''msg timeout: '' (Sprintv broadcast msg)) ctxErr)
           | FinishChan \<Rightarrow>
               (case err of
                  Some e \<Rightarrow> Inl (FailedToBroadcast e)
                | None \<Rightarrow>
                    if checkTxOnly then interpretCheckTxOnly res err
                    else interpretCommit res err)),
          [SignBuildBroadcastCall msg privKeyHex seq memo checkTxOnly]))"

text \<open>
  A transport that answers every call with the same value, for concrete runs. Its key
  parser accepts the strings of an even number of characters, a stand-in for the
  hexadecimal check of the real one.
\<close>

definition fixedBroadcast :: "BroadcastResult \<Rightarrow> go_error option \<Rightarrow> Broadcast" where
  "fixedBroadcast res err =
     \<lparr>transport_SignBuildBroadcast = (\<lambda>_ _ _ _ _. (res, err)),
      transport_GetPubKeyFromHex =
        (\<lambda>h. if even (length h) then Inr (map (\<lambda>c. of_char c) h)
             else Inl (''odd length hex string: '' @ h)),
      Sprintv = (\<lambda>_. ''msg'')\<rparr>"

definition sampleMsg :: Msg where
  "sampleMsg = MsgRevokePermission \<lparr>rev_Username = ''alice'', rev_PubKey = [1, 2]\<rparr>"

section \<open>Operations taking hex-encoded public keys\<close>

text \<open>
  Each operation parses its keys in the order of the source and returns at the first
  key that does not parse, before \<open>broadcastTransaction\<close> is reached.
\<close>

definition Register ::
  "Broadcast \<Rightarrow> select_case \<Rightarrow> username \<Rightarrow> string \<Rightarrow> username \<Rightarrow> hexkey \<Rightarrow> hexkey \<Rightarrow>
     hexkey \<Rightarrow> hexkey \<Rightarrow> int64 \<Rightarrow> (Error + BroadcastResponse) \<times> transport_call list" where
  "Register broadcast ctx referrer registerFee username resetPubKeyHex transactionPubKeyHex
     appPubKeyHex referrerPrivKeyHex seq =
     (case transport_GetPubKeyFromHex broadcast resetPubKeyHex of
        Inl err \<Rightarrow>
          (Inl (AddCause (FailedToGetPubKeyFromHex ''Register: failed to get Reset pub key'')
                  err), [])
      | Inr resetPubKey \<Rightarrow>
      (case transport_GetPubKeyFromHex broadcast transactionPubKeyHex of
        Inl err \<Rightarrow>
          (Inl (AddCause (FailedToGetPubKeyFromHex ''Register: failed to get Tx pub key'')
                  err), [])
      | Inr txPubKey \<Rightarrow>
      (case transport_GetPubKeyFromHex broadcast appPubKeyHex of
        Inl err \<Rightarrow>
          (Inl (AddCause (FailedToGetPubKeyFromHex ''Register: failed to get App pub key'')
                  err), [])
      | Inr appPubKey \<Rightarrow>
          (let msg = MsgRegister
                 \<lparr>reg_Referrer = referrer, reg_RegisterFee = registerFee,
                  reg_NewUser = username, reg_NewResetPubKey = resetPubKey,
                  reg_NewTransactionPubKey = txPubKey, reg_NewAppPubKey = appPubKey\<rparr>
           in broadcastTransaction broadcast ctx msg referrerPrivKeyHex seq [] False))))"

definition Recover ::
  "Broadcast \<Rightarrow> select_case \<Rightarrow> username \<Rightarrow> hexkey \<Rightarrow> hexkey \<Rightarrow> hexkey \<Rightarrow> hexkey \<Rightarrow> int64 \<Rightarrow>
     (Error + BroadcastResponse) \<times> transport_call list" where
  "Recover broadcast ctx username newResetPubKeyHex newTransactionPubKeyHex newAppPubKeyHex
     privKeyHex seq =
     (case transport_GetPubKeyFromHex broadcast newResetPubKeyHex of
        Inl err \<Rightarrow>
          (Inl (AddCause (FailedToGetPubKeyFromHexf ''Recover: failed to get Reset pub key'')
                  err), [])
      | Inr resetPubKey \<Rightarrow>
      (case transport_GetPubKeyFromHex broadcast newTransactionPubKeyHex of
        Inl err \<Rightarrow>
          (Inl (AddCause (FailedToGetPubKeyFromHexf ''Recover: failed to get Tx pub key'')
                  err), [])
      | Inr txPubKey \<Rightarrow>
      (case transport_GetPubKeyFromHex broadcast newAppPubKeyHex of
        Inl err \<Rightarrow>
          (Inl (AddCause (FailedToGetPubKeyFromHexf ''Recover: failed to get App pub key'')
                  err), [])
      | Inr appPubKey \<Rightarrow>
          (let msg = MsgRecover
                 \<lparr>rec_Username = username, rec_NewResetPubKey = resetPubKey,
                  rec_NewTransactionPubKey = txPubKey, rec_NewAppPubKey = appPubKey\<rparr>
           in broadcastTransaction broadcast ctx msg privKeyHex seq [] False))))"

definition ValidatorDeposit ::
  "Broadcast \<Rightarrow> select_case \<Rightarrow> username \<Rightarrow> string \<Rightarrow> hexkey \<Rightarrow> string \<Rightarrow> hexkey \<Rightarrow> int64 \<Rightarrow>
     (Error + BroadcastResponse) \<times> transport_call list" where
  "ValidatorDeposit broadcast ctx username deposit validatorPubKey link privKeyHex seq =
     (case transport_GetPubKeyFromHex broadcast validatorPubKey of
        Inl err \<Rightarrow>
          (Inl (AddCause
                  (FailedToGetPubKeyFromHexf ''ValidatorDeposit: failed to get Val pub key'')
                  err), [])
      | Inr valPubKey \<Rightarrow>
          (let msg = MsgValidatorDeposit
                 \<lparr>val_Username = username, val_Deposit = deposit,
                  val_ValPubKey = valPubKey, val_Link = link\<rparr>
           in broadcastTransaction broadcast ctx msg privKeyHex seq [] False))"

definition RevokePermission ::
  "Broadcast \<Rightarrow> select_case \<Rightarrow> username \<Rightarrow> hexkey \<Rightarrow> hexkey \<Rightarrow> int64 \<Rightarrow>
     (Error + BroadcastResponse) \<times> transport_call list" where
  "RevokePermission broadcast ctx username pubKeyHex privKeyHex seq =
     (case transport_GetPubKeyFromHex broadcast pubKeyHex of
        Inl err \<Rightarrow>
          (Inl (AddCause (FailedToGetPubKeyFromHex ''Register: failed to get pub key'') err),
           [])
      | Inr pubKey \<Rightarrow>
          (let msg = MsgRevokePermission \<lparr>rev_Username = username, rev_PubKey = pubKey\<rparr>
           in broadcastTransaction broadcast ctx msg privKeyHex seq [] False))"

text \<open>The parse error of the first key of a list that does not parse, if there is one.\<close>

fun firstKeyError :: "Broadcast \<Rightarrow> hexkey list \<Rightarrow> go_error option" where
  "firstKeyError broadcast [] = None"
| "firstKeyError broadcast (k # ks) =
     (case transport_GetPubKeyFromHex broadcast k of
        Inl err \<Rightarrow> Some err
      | Inr _ \<Rightarrow> firstKeyError broadcast ks)"

section \<open>CreatePost and the links map\<close>

text \<open>
  \<open>links\<close> is a Go map. It is given as the list of its entries in the order in which
  \<open>range\<close> visits them; the keys of a map are distinct, the map it stands for is
  \<open>map_of links\<close>, and the nil map and the empty map are both \<open>[]\<close>. The language leaves
  the order of \<open>range\<close> over a map open, so two runs on the same map may come with two
  different lists.
\<close>

fun rangeLinks ::
  "(string \<times> string) list \<Rightarrow> IDToURLMapping list \<Rightarrow> IDToURLMapping list" where
  "rangeLinks [] mLinks = mLinks"
| "rangeLinks ((k, v) # links) mLinks =
     rangeLinks links (mLinks @ [\<lparr>Identifier = k, URL = v\<rparr>])"

definition CreatePostMsgOf ::
  "username \<Rightarrow> string \<Rightarrow> string \<Rightarrow> string \<Rightarrow> username \<Rightarrow> string \<Rightarrow> username \<Rightarrow> string \<Rightarrow>
     string \<Rightarrow> (string \<times> string) list \<Rightarrow> CreatePostMsg" where
  "CreatePostMsgOf author postID title content parentAuthor parentPostID sourceAuthor
     sourcePostID redistributionSplitRate links =
     (let mLinks = (if links = [] \<or> length links = 0 then [] else rangeLinks links [])
      in \<lparr>Author = author, PostID = postID, Title = title, Content = content,
          ParentAuthor = parentAuthor, ParentPostID = parentPostID,
          SourceAuthor = sourceAuthor, SourcePostID = sourcePostID,
          Links = mLinks, RedistributionSplitRate = redistributionSplitRate\<rparr>)"

definition CreatePost ::
  "Broadcast \<Rightarrow> select_case \<Rightarrow> username \<Rightarrow> string \<Rightarrow> string \<Rightarrow> string \<Rightarrow> username \<Rightarrow>
     string \<Rightarrow> username \<Rightarrow> string \<Rightarrow> string \<Rightarrow> (string \<times> string) list \<Rightarrow> hexkey \<Rightarrow>
     int64 \<Rightarrow> (Error + BroadcastResponse) \<times> transport_call list" where
  "CreatePost broadcast ctx author postID title content parentAuthor parentPostID sourceAuthor
     sourcePostID redistributionSplitRate links privKeyHex seq =
     broadcastTransaction broadcast ctx
       (MsgCreatePost (CreatePostMsgOf author postID title content parentAuthor parentPostID
          sourceAuthor sourcePostID redistributionSplitRate links))
       privKeyHex seq [] False"

section \<open>Transport\<close>

text \<open>
  The node's RPC client as the answers it gives. \<open>BroadcastTxCommit\<close> returns a pointer
  and an error as two values: with an error, \<open>Inl\<close> of the pointer (which may be nil)
  and the error; with a nil error, \<open>Inr\<close> of the struct pointed to. \<open>BroadcastTx\<close> hands
  both values on, so its own result stays a pair.
\<close>

record ResponseQuery =
  query_Code :: uint32
  query_Value :: bytes
  query_Log :: string

record Client =
  ABCIQuery :: "string \<Rightarrow> bytes \<Rightarrow> go_error + ResponseQuery"
  BroadcastTxCommit ::
    "bytes \<Rightarrow> (ResultBroadcastTxCommit option \<times> go_error) + ResultBroadcastTxCommit"

record Transport =
  chainId :: string
  nodeUrl :: string
  client :: "Client option"

text \<open>The requests sent to the node, in order.\<close>

datatype rpc_call = ABCIQueryCall string bytes | BroadcastTxCommitCall bytes

text \<open>The verb \<open>%d\<close> of \<open>fmt\<close> on an unsigned integer: its decimal digits.\<close>

fun decimal :: "nat \<Rightarrow> string" where
  "decimal n =
     (if n < 10 then [char_of (48 + n)] else decimal (n div 10) @ [char_of (48 + n mod 10)])"

declare decimal.simps [simp del]

text \<open>
  The three calls of \<open>errors.Errorf\<close> of the transport, each with the format
  \<open>"... failed: (%d) %s"\<close> applied to a response code and a log.
\<close>

definition queryFailed :: "uint32 \<Rightarrow> string \<Rightarrow> go_error" where
  "queryFailed c l = ''Query failed: ('' @ decimal (unat c) @ '') '' @ l"

definition checkTxFailed :: "uint32 \<Rightarrow> string \<Rightarrow> go_error" where
  "checkTxFailed c l = ''CheckTx failed: ('' @ decimal (unat c) @ '') '' @ l"

definition deliverTxFailed :: "uint32 \<Rightarrow> string \<Rightarrow> go_error" where
  "deliverTxFailed c l = ''DeliverTx failed: ('' @ decimal (unat c) @ '') '' @ l"

definition GetNode :: "Transport \<Rightarrow> go_error + Client" where
  "GetNode t = (case client t of None \<Rightarrow> Inl ''Must define node URI'' | Some c \<Rightarrow> Inr c)"

definition Query :: "Transport \<Rightarrow> bytes \<Rightarrow> string \<Rightarrow> (go_error + bytes) \<times> rpc_call list" where
  "Query t key storeName =
     (let path = ''/'' @ storeName @ ''/key'' in
      case GetNode t of
        Inl err \<Rightarrow> (Inl err, [])
      | Inr node \<Rightarrow>
          (case ABCIQuery node path key of
             Inl err \<Rightarrow> (Inl err, [ABCIQueryCall path key])
           | Inr resp \<Rightarrow>
               if query_Code resp \<noteq> 0 then
                 (Inl (queryFailed (query_Code resp) (query_Log resp)),
                  [ABCIQueryCall path key])
               else (Inr (query_Value resp), [ABCIQueryCall path key])))"

definition BroadcastTx ::
  "Transport \<Rightarrow> bytes \<Rightarrow> (ResultBroadcastTxCommit option \<times> go_error option) \<times> rpc_call list"
  where
  "BroadcastTx t tx =
     (case GetNode t of
        Inl err \<Rightarrow> ((None, Some err), [])
      | Inr node \<Rightarrow>
          (case BroadcastTxCommit node tx of
             Inl (res, err) \<Rightarrow> ((res, Some err), [BroadcastTxCommitCall tx])
           | Inr r \<Rightarrow>
               if check_Code (CheckTx r) \<noteq> 0 then
                 ((Some r,
                   Some (checkTxFailed (check_Code (CheckTx r)) (check_Log (CheckTx r)))),
                  [BroadcastTxCommitCall tx])
               else if deliver_Code (DeliverTx r) \<noteq> 0 then
                 ((Some r,
                   Some (deliverTxFailed (deliver_Code (DeliverTx r))
                           (deliver_Log (DeliverTx r)))),
                  [BroadcastTxCommitCall tx])
               else ((Some r, None), [BroadcastTxCommitCall tx])))"

text \<open>
  \<open>SignBuildBroadcast\<close> calls \<open>EncodeSignMsg\<close>, the key's \<open>Sign\<close> and \<open>PubKey\<close>, and
  \<open>EncodeTx\<close>; none of them is among the sources, so they are fields of \<open>Signer\<close>.
  A \<open>panic\<close> is an outcome of its own.
\<close>

type_synonym PrivKey = bytes

record Signer =
  EncodeSignMsg :: "Msg \<Rightarrow> string \<Rightarrow> int64 \<Rightarrow> go_error + bytes"
  Sign :: "PrivKey \<Rightarrow> bytes \<Rightarrow> bytes"
  PubKeyOf :: "PrivKey \<Rightarrow> PubKey"
  EncodeTx :: "Msg \<Rightarrow> PubKey \<Rightarrow> bytes \<Rightarrow> int64 \<Rightarrow> go_error + bytes"

datatype 'a outcome = Panic go_error | Return 'a

definition SignBuildBroadcast ::
  "Signer \<Rightarrow> Transport \<Rightarrow> Msg \<Rightarrow> PrivKey \<Rightarrow> int64 \<Rightarrow>
     (ResultBroadcastTxCommit option \<times> go_error option) outcome \<times> rpc_call list" where
  "SignBuildBroadcast enc t msg privKey seq =
     (case EncodeSignMsg enc msg (chainId t) seq of
        Inl err \<Rightarrow> (Panic err, [])
      | Inr signMsgBytes \<Rightarrow>
          (let sig = Sign enc privKey signMsgBytes in
           case EncodeTx enc msg (PubKeyOf enc privKey) sig seq of
             Inl err \<Rightarrow> (Panic err, [])
           | Inr txBytes \<Rightarrow>
               (let (r, calls) = BroadcastTx t txBytes in (Return r, calls))))"

section \<open>The query layer for posts\<close>

record Coin =
  Amount :: int64

record KVPair =
  kv_Key :: bytes
  kv_Value :: bytes

record PostInfo =
  pi_PostID :: string
  pi_Title :: string
  pi_Content :: string
  pi_Author :: string
  pi_ParentAuthor :: string
  pi_ParentPostID :: string
  pi_SourceAuthor :: string
  pi_SourcePostID :: string
  pi_Links :: "IDToURLMapping list"

text \<open>\<open>PostMeta\<close> and \<open>Post\<close> with the fields that \<open>GetUserAllPosts\<close> reads and writes.\<close>

record PostMeta =
  pm_CreatedAt :: int64
  pm_LastUpdatedAt :: int64
  pm_LastActivityAt :: int64
  pm_AllowReplies :: bool
  pm_IsDeleted :: bool
  pm_TotalDonateCount :: int64
  pm_TotalReportCoinDay :: Coin
  pm_TotalUpvoteCoinDay :: Coin
  pm_TotalViewCount :: int64
  pm_TotalReward :: Coin
  pm_RedistributionSplitRate :: string

record Post =
  post_PostID :: string
  post_Title :: string
  post_Content :: string
  post_Author :: string
  post_ParentAuthor :: string
  post_ParentPostID :: string
  post_SourceAuthor :: string
  post_SourcePostID :: string
  post_Links :: "IDToURLMapping list"
  post_CreatedAt :: int64
  post_LastUpdatedAt :: int64
  post_LastActivityAt :: int64
  post_AllowReplies :: bool
  post_IsDeleted :: bool
  post_TotalDonateCount :: int64
  post_TotalReportCoinDay :: Coin
  post_TotalUpvoteCoinDay :: Coin
  post_TotalViewCount :: int64
  post_TotalReward :: Coin
  post_RedistributionSplitRate :: string

record Comment =
  comment_Author :: string
  comment_PostID :: string
  comment_Created :: int64

record View =
  view_Username :: string
  view_Created :: int64
  view_Times :: int64

record Donation =
  donation_Amount :: Coin
  donation_Created :: int64

record ReportOrUpvote =
  rou_Username :: string
  rou_Stake :: Coin
  rou_Created :: int64
  rou_IsReport :: bool

text \<open>
  What the query functions call and the sources do not contain: the transport's point
  query and range scan (the versions that take a context), the codec's JSON decoder at
  the six record types, and the helpers and constants that build and strip keys. The
  struct \<open>model.Donations\<close> is not among the sources either (only \<open>Donation\<close> is), so
  it is the type parameter \<open>'d\<close>. The node's answers are those of one snapshot of its
  state.
\<close>

record 'd QueryAPI =
  transport_Query :: "bytes \<Rightarrow> string \<Rightarrow> go_error + bytes"
  transport_QuerySubspace :: "bytes \<Rightarrow> string \<Rightarrow> go_error + KVPair list"
  UnmarshalPostInfo :: "bytes \<Rightarrow> go_error + PostInfo"
  UnmarshalPostMeta :: "bytes \<Rightarrow> go_error + PostMeta"
  UnmarshalComment :: "bytes \<Rightarrow> go_error + Comment"
  UnmarshalView :: "bytes \<Rightarrow> go_error + View"
  UnmarshalDonations :: "bytes \<Rightarrow> go_error + 'd"
  UnmarshalReportOrUpvote :: "bytes \<Rightarrow> go_error + ReportOrUpvote"
  getPermlink :: "string \<Rightarrow> string \<Rightarrow> string"
  getPostMetaKey :: "string \<Rightarrow> bytes"
  getUserPostInfoPrefix :: "string \<Rightarrow> bytes"
  getPostCommentPrefix :: "string \<Rightarrow> bytes"
  getPostViewPrefix :: "string \<Rightarrow> bytes"
  getPostDonationsPrefix :: "string \<Rightarrow> bytes"
  getPostReportOrUpvotePrefix :: "string \<Rightarrow> bytes"
  getSubstringAfterSubstore :: "bytes \<Rightarrow> string"
  getSubstringAfterKeySeparator :: "bytes \<Rightarrow> string"
  PermLinkSeparator :: bytes
  PostKVStoreKey :: string

definition GetPostMeta :: "'d QueryAPI \<Rightarrow> string \<Rightarrow> string \<Rightarrow> go_error + PostMeta" where
  "GetPostMeta query author postID =
     (let permlink = getPermlink query author postID in
      case transport_Query query (getPostMetaKey query permlink) (PostKVStoreKey query) of
        Inl err \<Rightarrow> Inl err
      | Inr resp \<Rightarrow>
          (case UnmarshalPostMeta query resp of
             Inl err \<Rightarrow> Inl err
           | Inr postMeta \<Rightarrow> Inr postMeta))"

definition mergePost :: "PostInfo \<Rightarrow> PostMeta \<Rightarrow> Post" where
  "mergePost postInfo pm =
     \<lparr>post_PostID = pi_PostID postInfo,
      post_Title = pi_Title postInfo,
      post_Content = pi_Content postInfo,
      post_Author = pi_Author postInfo,
      post_ParentAuthor = pi_ParentAuthor postInfo,
      post_ParentPostID = pi_ParentPostID postInfo,
      post_SourceAuthor = pi_SourceAuthor postInfo,
      post_SourcePostID = pi_SourcePostID postInfo,
      post_Links = pi_Links postInfo,
      post_CreatedAt = pm_CreatedAt pm,
      post_LastUpdatedAt = pm_LastUpdatedAt pm,
      post_LastActivityAt = pm_LastActivityAt pm,
      post_AllowReplies = pm_AllowReplies pm,
      post_IsDeleted = pm_IsDeleted pm,
      post_TotalDonateCount = pm_TotalDonateCount pm,
      post_TotalReportCoinDay = pm_TotalReportCoinDay pm,
      post_TotalUpvoteCoinDay = pm_TotalUpvoteCoinDay pm,
      post_TotalViewCount = pm_TotalViewCount pm,
      post_TotalReward = pm_TotalReward pm,
      post_RedistributionSplitRate = pm_RedistributionSplitRate pm\<rparr>"

text \<open>The loop of \<open>GetUserAllPosts\<close> over the pairs of the range scan.\<close>

fun userAllPostsLoop ::
  "'d QueryAPI \<Rightarrow> KVPair list \<Rightarrow> (string \<rightharpoonup> Post) \<Rightarrow> go_error + (string \<rightharpoonup> Post)" where
  "userAllPostsLoop query [] permlinkToPostMap = Inr permlinkToPostMap"
| "userAllPostsLoop query (KV # resKVs) permlinkToPostMap =
     (case UnmarshalPostInfo query (kv_Value KV) of
        Inl err \<Rightarrow> Inl err
      | Inr postInfo \<Rightarrow>
          (case GetPostMeta query (pi_Author postInfo) (pi_PostID postInfo) of
             Inl err \<Rightarrow> Inl err
           | Inr pm \<Rightarrow>
               userAllPostsLoop query resKVs
                 (permlinkToPostMap
                    (getSubstringAfterSubstore query (kv_Key KV) \<mapsto> mergePost postInfo pm))))"

definition GetUserAllPosts :: "'d QueryAPI \<Rightarrow> string \<Rightarrow> go_error + (string \<rightharpoonup> Post)" where
  "GetUserAllPosts query username =
     (case transport_QuerySubspace query
             (getUserPostInfoPrefix query username @ PermLinkSeparator query)
             (PostKVStoreKey query) of
        Inl err \<Rightarrow> Inl err
      | Inr resKVs \<Rightarrow> userAllPostsLoop query resKVs Map.empty)"

text \<open>The loop of \<open>GetPostAllComments\<close>.\<close>

fun postAllCommentsLoop ::
  "'d QueryAPI \<Rightarrow> KVPair list \<Rightarrow> (string \<rightharpoonup> Comment) \<Rightarrow> go_error + (string \<rightharpoonup> Comment)" where
  "postAllCommentsLoop query [] permlinkToCommentsMap = Inr permlinkToCommentsMap"
| "postAllCommentsLoop query (KV # resKVs) permlinkToCommentsMap =
     (case UnmarshalComment query (kv_Value KV) of
        Inl err \<Rightarrow> Inl err
      | Inr comment \<Rightarrow>
          postAllCommentsLoop query resKVs
            (permlinkToCommentsMap
               (getSubstringAfterKeySeparator query (kv_Key KV) \<mapsto> comment)))"

definition GetPostAllComments ::
  "'d QueryAPI \<Rightarrow> string \<Rightarrow> string \<Rightarrow> go_error + (string \<rightharpoonup> Comment)" where
  "GetPostAllComments query author postID =
     (let permlink = getPermlink query author postID in
      case transport_QuerySubspace query (getPostCommentPrefix query permlink)
             (PostKVStoreKey query) of
        Inl err \<Rightarrow> Inl err
      | Inr resKVs \<Rightarrow> postAllCommentsLoop query resKVs Map.empty)"

text \<open>The loop of \<open>GetPostAllViews\<close>.\<close>

fun postAllViewsLoop ::
  "'d QueryAPI \<Rightarrow> KVPair list \<Rightarrow> (string \<rightharpoonup> View) \<Rightarrow> go_error + (string \<rightharpoonup> View)" where
  "postAllViewsLoop query [] userToViewMap = Inr userToViewMap"
| "postAllViewsLoop query (KV # resKVs) userToViewMap =
     (case UnmarshalView query (kv_Value KV) of
        Inl err \<Rightarrow> Inl err
      | Inr view \<Rightarrow>
          postAllViewsLoop query resKVs
            (userToViewMap (getSubstringAfterKeySeparator query (kv_Key KV) \<mapsto> view)))"

definition GetPostAllViews ::
  "'d QueryAPI \<Rightarrow> string \<Rightarrow> string \<Rightarrow> go_error + (string \<rightharpoonup> View)" where
  "GetPostAllViews query author postID =
     (let permlink = getPermlink query author postID in
      case transport_QuerySubspace query (getPostViewPrefix query permlink)
             (PostKVStoreKey query) of
        Inl err \<Rightarrow> Inl err
      | Inr resKVs \<Rightarrow> postAllViewsLoop query resKVs Map.empty)"

text \<open>The loop of \<open>GetPostAllDonations\<close>.\<close>

fun postAllDonationsLoop ::
  "'d QueryAPI \<Rightarrow> KVPair list \<Rightarrow> (string \<rightharpoonup> 'd) \<Rightarrow> go_error + (string \<rightharpoonup> 'd)" where
  "postAllDonationsLoop query [] userToDonationsMap = Inr userToDonationsMap"
| "postAllDonationsLoop query (KV # resKVs) userToDonationsMap =
     (case UnmarshalDonations query (kv_Value KV) of
        Inl err \<Rightarrow> Inl err
      | Inr donations \<Rightarrow>
          postAllDonationsLoop query resKVs
            (userToDonationsMap
               (getSubstringAfterKeySeparator query (kv_Key KV) \<mapsto> donations)))"

definition GetPostAllDonations ::
  "'d QueryAPI \<Rightarrow> string \<Rightarrow> string \<Rightarrow> go_error + (string \<rightharpoonup> 'd)" where
  "GetPostAllDonations query author postID =
     (let permlink = getPermlink query author postID in
      case transport_QuerySubspace query (getPostDonationsPrefix query permlink)
             (PostKVStoreKey query) of
        Inl err \<Rightarrow> Inl err
      | Inr resKVs \<Rightarrow> postAllDonationsLoop query resKVs Map.empty)"

text \<open>The loop of \<open>GetPostAllReportOrUpvotes\<close>.\<close>

fun postAllReportOrUpvotesLoop ::
  "'d QueryAPI \<Rightarrow> KVPair list \<Rightarrow> (string \<rightharpoonup> ReportOrUpvote) \<Rightarrow>
     go_error + (string \<rightharpoonup> ReportOrUpvote)" where
  "postAllReportOrUpvotesLoop query [] userToReportOrUpvotesMap =
     Inr userToReportOrUpvotesMap"
| "postAllReportOrUpvotesLoop query (KV # resKVs) userToReportOrUpvotesMap =
     (case UnmarshalReportOrUpvote query (kv_Value KV) of
        Inl err \<Rightarrow> Inl err
      | Inr reportOrUpvote \<Rightarrow>
          postAllReportOrUpvotesLoop query resKVs
            (userToReportOrUpvotesMap
               (getSubstringAfterKeySeparator query (kv_Key KV) \<mapsto> reportOrUpvote)))"

definition GetPostAllReportOrUpvotes ::
  "'d QueryAPI \<Rightarrow> string \<Rightarrow> string \<Rightarrow> go_error + (string \<rightharpoonup> ReportOrUpvote)" where
  "GetPostAllReportOrUpvotes query author postID =
     (let permlink = getPermlink query author postID in
      case transport_QuerySubspace query (getPostReportOrUpvotePrefix query permlink)
             (PostKVStoreKey query) of
        Inl err \<Rightarrow> Inl err
      | Inr resKVs \<Rightarrow> postAllReportOrUpvotesLoop query resKVs Map.empty)"

text \<open>The error with which one pair of a scan makes the loop return, if it does.\<close>

definition postEntryError :: "'d QueryAPI \<Rightarrow> KVPair \<Rightarrow> go_error option" where
  "postEntryError query KV =
     (case UnmarshalPostInfo query (kv_Value KV) of
        Inl err \<Rightarrow> Some err
      | Inr postInfo \<Rightarrow>
          (case GetPostMeta query (pi_Author postInfo) (pi_PostID postInfo) of
             Inl err \<Rightarrow> Some err
           | Inr _ \<Rightarrow> None))"

definition commentEntryError :: "'d QueryAPI \<Rightarrow> KVPair \<Rightarrow> go_error option" where
  "commentEntryError query KV =
     (case UnmarshalComment query (kv_Value KV) of Inl err \<Rightarrow> Some err | Inr _ \<Rightarrow> None)"

definition viewEntryError :: "'d QueryAPI \<Rightarrow> KVPair \<Rightarrow> go_error option" where
  "viewEntryError query KV =
     (case UnmarshalView query (kv_Value KV) of Inl err \<Rightarrow> Some err | Inr _ \<Rightarrow> None)"

definition donationsEntryError :: "'d QueryAPI \<Rightarrow> KVPair \<Rightarrow> go_error option" where
  "donationsEntryError query KV =
     (case UnmarshalDonations query (kv_Value KV) of Inl err \<Rightarrow> Some err | Inr _ \<Rightarrow> None)"

definition reportOrUpvoteEntryError :: "'d QueryAPI \<Rightarrow> KVPair \<Rightarrow> go_error option" where
  "reportOrUpvoteEntryError query KV =
     (case UnmarshalReportOrUpvote query (kv_Value KV) of
        Inl err \<Rightarrow> Some err
      | Inr _ \<Rightarrow> None)"

section \<open>Concrete responses\<close>

definition execRejected :: ResultBroadcastTxCommit where
  "execRejected =
     \<lparr>CheckTx = \<lparr>check_Code = 0, check_Log = ''ok''\<rparr>,
      DeliverTx = \<lparr>deliver_Code = 3, deliver_Log = ''no funds''\<rparr>,
      commit_Hash = [0xAB, 0x12]\<rparr>"

definition staleCommit :: ResultBroadcastTxCommit where
  "staleCommit =
     \<lparr>CheckTx = \<lparr>check_Code = 154, check_Log = ''stale''\<rparr>,
      DeliverTx = \<lparr>deliver_Code = 0, deliver_Log = []\<rparr>,
      commit_Hash = [0xAB, 0x12]\<rparr>"

definition namespacedStaleCommit :: ResultBroadcastTxCommit where
  "namespacedStaleCommit =
     \<lparr>CheckTx = \<lparr>check_Code = 0x1009A, check_Log = ''stale''\<rparr>,
      DeliverTx = \<lparr>deliver_Code = 0, deliver_Log = []\<rparr>,
      commit_Hash = [0xAB, 0x12]\<rparr>"

definition acceptedTx :: ResultBroadcastTx where
  "acceptedTx = \<lparr>tx_Code = 0, tx_Log = ''ok'', tx_Hash = [0xAB, 0x12]\<rparr>"

definition staleTx :: ResultBroadcastTx where
  "staleTx = \<lparr>tx_Code = 154, tx_Log = ''stale'', tx_Hash = [0xAB, 0x12]\<rparr>"

definition namespacedStaleTx :: ResultBroadcastTx where
  "namespacedStaleTx = \<lparr>tx_Code = 0x19A, tx_Log = ''stale'', tx_Hash = [0xAB, 0x12]\<rparr>"

definition rejectedTx :: ResultBroadcastTx where
  "rejectedTx = \<lparr>tx_Code = 5, tx_Log = ''bad signature'', tx_Hash = [0xAB, 0x12]\<rparr>"

section \<open>A concrete node\<close>

text \<open>
  A node that knows the store \<open>post\<close>: the key \<open>[1]\<close> holds the empty value, every
  other key is reported missing with code 7.
\<close>

definition sampleClient :: Client where
  "sampleClient =
     \<lparr>ABCIQuery =
        (\<lambda>path key.
           if path = ''/post/key'' then
             Inr (if key = [1] then \<lparr>query_Code = 0, query_Value = [], query_Log = []\<rparr>
                  else \<lparr>query_Code = 7, query_Value = [], query_Log = ''not found''\<rparr>)
           else Inl ''unknown path''),
      BroadcastTxCommit = (\<lambda>tx. Inr execRejected)\<rparr>"

definition connected :: Transport where
  "connected =
     \<lparr>chainId = ''test-chain-NVQwvW'', nodeUrl = ''localhost:46657'',
      client = Some sampleClient\<rparr>"

definition unconnected :: Transport where
  "unconnected = \<lparr>chainId = ''test-chain-NVQwvW'', nodeUrl = [], client = None\<rparr>"

definition sampleSigner :: Signer where
  "sampleSigner =
     \<lparr>EncodeSignMsg = (\<lambda>msg chain seq. Inr [1]),
      Sign = (\<lambda>privKey bs. privKey @ bs),
      PubKeyOf = (\<lambda>privKey. privKey),
      EncodeTx = (\<lambda>msg pubKey sig seq. Inr sig)\<rparr>"

section \<open>Reading decimal digits\<close>

text \<open>The number that a string of decimal digits denotes, and the test for a digit.\<close>

definition undecimal :: "string \<Rightarrow> nat" where
  "undecimal s = foldl (\<lambda>a c. 10 * a + (of_char c - 48)) 0 s"

definition isDigit :: "char \<Rightarrow> bool" where
  "isDigit c = (48 \<le> (of_char c :: nat) \<and> (of_char c :: nat) \<le> 57)"

section \<open>A concrete post store\<close>

text \<open>The first error in a list of entries, in the order of the list.\<close>

fun firstError :: "('a \<Rightarrow> go_error option) \<Rightarrow> 'a list \<Rightarrow> go_error option" where
  "firstError f [] = None"
| "firstError f (x # xs) = (case f x of Some err \<Rightarrow> Some err | None \<Rightarrow> firstError f xs)"

definition samplePostInfo :: PostInfo where
  "samplePostInfo =
     \<lparr>pi_PostID = ''1article'', pi_Title = ''title'', pi_Content = ''content'',
      pi_Author = ''alice'', pi_ParentAuthor = [], pi_ParentPostID = [],
      pi_SourceAuthor = [], pi_SourcePostID = [], pi_Links = []\<rparr>"

definition samplePostMeta :: PostMeta where
  "samplePostMeta =
     \<lparr>pm_CreatedAt = 1, pm_LastUpdatedAt = 2, pm_LastActivityAt = 3, pm_AllowReplies = True,
      pm_IsDeleted = False, pm_TotalDonateCount = 0, pm_TotalReportCoinDay = \<lparr>Amount = 0\<rparr>,
      pm_TotalUpvoteCoinDay = \<lparr>Amount = 0\<rparr>, pm_TotalViewCount = 4,
      pm_TotalReward = \<lparr>Amount = 5\<rparr>, pm_RedistributionSplitRate = ''0''\<rparr>"

definition sampleComment :: Comment where
  "sampleComment =
     \<lparr>comment_Author = ''bob'', comment_PostID = ''reply'', comment_Created = 6\<rparr>"

text \<open>
  A store whose range scans return three pairs; the value \<open>[1]\<close> decodes at each of
  the record types of the scans, the value \<open>[2]\<close> of the second pair at none. The
  donations of a user are taken to be a list of \<open>Donation\<close>. The point query for the
  metadata answers with the value \<open>[3]\<close>, which decodes.
\<close>

definition sampleView :: View where
  "sampleView = \<lparr>view_Username = ''carol'', view_Created = 8, view_Times = 2\<rparr>"

definition sampleReport :: ReportOrUpvote where
  "sampleReport =
     \<lparr>rou_Username = ''dave'', rou_Stake = \<lparr>Amount = 9\<rparr>, rou_Created = 10,
      rou_IsReport = True\<rparr>"

definition sampleQuery :: "Donation list QueryAPI" where
  "sampleQuery =
     \<lparr>transport_Query = (\<lambda>key store. Inr [3]),
      transport_QuerySubspace =
        (\<lambda>prefix store.
           Inr [\<lparr>kv_Key = [10], kv_Value = [1]\<rparr>, \<lparr>kv_Key = [11], kv_Value = [2]\<rparr>,
                \<lparr>kv_Key = [12], kv_Value = [1]\<rparr>]),
      UnmarshalPostInfo =
        (\<lambda>bs. if bs = [1] then Inr samplePostInfo else Inl ''invalid character''),
      UnmarshalPostMeta =
        (\<lambda>bs. if bs = [3] then Inr samplePostMeta else Inl ''unexpected end of input''),
      UnmarshalComment =
        (\<lambda>bs. if bs = [1] then Inr sampleComment else Inl ''invalid character''),
      UnmarshalView =
        (\<lambda>bs. if bs = [1] then Inr sampleView else Inl ''invalid character''),
      UnmarshalDonations =
        (\<lambda>bs. if bs = [1] then Inr [\<lparr>donation_Amount = \<lparr>Amount = 1\<rparr>, donation_Created = 7\<rparr>]
              else Inl ''invalid character''),
      UnmarshalReportOrUpvote =
        (\<lambda>bs. if bs = [1] then Inr sampleReport else Inl ''invalid character''),
      getPermlink = (\<lambda>author postID. author @ ''#'' @ postID),
      getPostMetaKey = (\<lambda>permlink. 1 # map of_char permlink),
      getUserPostInfoPrefix = (\<lambda>user. 0 # map of_char user),
      getPostCommentPrefix = (\<lambda>permlink. 2 # map of_char permlink),
      getPostViewPrefix = (\<lambda>permlink. 3 # map of_char permlink),
      getPostDonationsPrefix = (\<lambda>permlink. 4 # map of_char permlink),
      getPostReportOrUpvotePrefix = (\<lambda>permlink. 5 # map of_char permlink),
      getSubstringAfterSubstore = (\<lambda>key. map (\<lambda>b. char_of (unat b)) (tl key)),
      getSubstringAfterKeySeparator = (\<lambda>key. map (\<lambda>b. char_of (unat b)) (tl key)),
      PermLinkSeparator = [35],
      PostKVStoreKey = ''post''\<rparr>"

text \<open>The same store when the node reports the metadata of every post missing.\<close>

definition sampleQueryNoMeta :: "Donation list QueryAPI" where
  "sampleQueryNoMeta =
     sampleQuery\<lparr>transport_Query := (\<lambda>key store. Inl ''Query failed: (7) not found'')\<rparr>"

section \<open>Two visiting orders of one links map\<close>



section \<open>The signable payload\<close>

text \<open>
  Modelled from the spec: \<open>EncodeSignMsg\<close> is called by \<open>SignBuildBroadcast\<close> and is not
  among the sources. Section 4.3 of the specification asks for a canonical byte sequence
  made of the message, the chain id and the sequence number, and section 3 says that any
  change of the content or of its order changes what is signed. The model writes the
  chain id, the sequence number in decimal and then the fields of the message in the
  order of their declaration, each field as its length in decimal, a colon and its
  content; the links of a post follow one by one, in the order of the list.
\<close>

definition frame :: "string \<Rightarrow> string" where
  "frame s = decimal (length s) @ '':'' @ s"

definition textOf :: "bytes \<Rightarrow> string" where
  "textOf bs = map (\<lambda>b. char_of (unat b)) bs"

fun encodeLinks :: "IDToURLMapping list \<Rightarrow> string" where
  "encodeLinks [] = ''.''"
| "encodeLinks (l # ls) = '','' @ frame (Identifier l) @ frame (URL l) @ encodeLinks ls"




section \<open>Hexadecimal rendering\<close>

lemma toUpper_hextable_all:
  "list_all (\<lambda>i. toUpperByte (hextable ! i) = upperHexTable ! i) [0..<16]"
  by code_simp

lemma toUpper_hextable:
  assumes "i < 16"
  shows "toUpperByte (hextable ! i) = upperHexTable ! i"
proof -
  from assms have "i \<in> set [0..<16]" by simp
  with toUpper_hextable_all show ?thesis
    unfolding list_all_iff by blast
qed

lemma high_nibble: "unat (drop_bit 4 (v :: 8 word)) = unat v div 16"
  by (simp add: drop_bit_eq_div unat_div)

lemma low_nibble: "unat ((v :: 8 word) AND 0x0f) = unat v mod 16"
proof -
  have "(v AND 0x0f) = take_bit 4 v"
    by (simp add: take_bit_eq_mask mask_eq_exp_minus_1)
  then show ?thesis by (simp add: take_bit_eq_mod unat_mod)
qed

lemma byte_high_lt: "unat (v :: 8 word) div 16 < 16"
  using unsigned_less [of v, where 'a = nat] by simp

lemma EncodeToString_hexdigits: "set (EncodeToString bs) \<subseteq> set hextable"
proof (induction bs)
  case Nil
  show ?case by simp
next
  case (Cons v bs)
  have h: "unat v div 16 < length hextable"
    using byte_high_lt [of v] by (simp add: hextable_def)
  have l: "unat v mod 16 < length hextable"
    by (simp add: hextable_def)
  from Cons nth_mem [OF h] nth_mem [OF l] show ?case
    by (simp add: high_nibble low_nibble)
qed

lemma ToUpper_EncodeToString: "ToUpper (EncodeToString bs) = upperHex bs"
proof (induction bs)
  case Nil
  show ?case by (simp add: ToUpper_def)
next
  case (Cons v bs)
  have l: "unat v mod 16 < 16" by simp
  from Cons show ?case
    by (simp add: ToUpper_def high_nibble low_nibble
        toUpper_hextable [OF byte_high_lt] toUpper_hextable [OF l])
qed

lemma upperHex_length: "length (upperHex bs) = 2 * length bs"
  by (induction bs) simp_all

lemma upperHex_digits: "set (upperHex bs) \<subseteq> set upperHexTable"
proof (induction bs)
  case Nil
  show ?case by simp
next
  case (Cons v bs)
  have h: "unat v div 16 < length upperHexTable"
    using byte_high_lt [of v] by (simp add: upperHexTable_def)
  have l: "unat v mod 16 < length upperHexTable"
    by (simp add: upperHexTable_def)
  from Cons nth_mem [OF h] nth_mem [OF l] show ?case by simp
qed

lemma upperHex_AB12: "upperHex [0xAB, 0x12] = ''AB12''"
  by (simp add: upperHexTable_def)

section \<open>The result interpreter\<close>

lemmas error_defs = NewError_def Timeoutf_def FailedToBroadcast_def InvalidSequenceNumber_def
  CheckTxFail_def DeliverTxFail_def AddCause_def AddBlockChainCode_def AddBlockChainLog_def
  parseFailure_def FailedToGetPubKeyFromHex_def FailedToGetPubKeyFromHexf_def

lemma interpretCommit_eq:
  "interpretCommit (PtrResultBroadcastTxCommit r) None =
     (if check_Code (CheckTx r) AND 0xff = 154 then
        Inl \<lparr>errCode = CodeInvalidSequenceNumber, errMsg = ''invalid seq'', errCause = None,
             blockChainCode = check_Code (CheckTx r), blockChainLog = check_Log (CheckTx r)\<rparr>
      else if check_Code (CheckTx r) \<noteq> 0 then
        Inl \<lparr>errCode = CodeCheckTxFail, errMsg = ''CheckTx failed!'', errCause = None,
             blockChainCode = check_Code (CheckTx r), blockChainLog = check_Log (CheckTx r)\<rparr>
      else if deliver_Code (DeliverTx r) \<noteq> 0 then
        Inl \<lparr>errCode = CodeDeliverTxFail, errMsg = ''DeliverTx failed!'', errCause = None,
             blockChainCode = deliver_Code (DeliverTx r),
             blockChainLog = deliver_Log (DeliverTx r)\<rparr>
      else Inr \<lparr>CommitHash = upperHex (commit_Hash r)\<rparr>)"
  by (simp add: interpretCommit_def retrieveCodeFromBlockChainCode_def InvalidSeqErrCode_def
      error_defs ToUpper_EncodeToString Let_def)

lemma interpretCheckTxOnly_eq:
  "interpretCheckTxOnly (PtrResultBroadcastTx r) None =
     (if tx_Code r AND 0xff = 154 then
        Inl \<lparr>errCode = CodeInvalidSequenceNumber, errMsg = ''invalid seq'', errCause = None,
             blockChainCode = tx_Code r, blockChainLog = tx_Log r\<rparr>
      else if tx_Code r \<noteq> 0 then
        Inl \<lparr>errCode = CodeCheckTxFail, errMsg = ''CheckTx failed!'', errCause = None,
             blockChainCode = tx_Code r, blockChainLog = tx_Log r\<rparr>
      else Inr \<lparr>CommitHash = upperHex (tx_Hash r)\<rparr>)"
  by (simp add: interpretCheckTxOnly_def retrieveCodeFromBlockChainCode_def InvalidSeqErrCode_def
      error_defs ToUpper_EncodeToString Let_def)

lemma interpretCheckTxOnly_other:
  "(\<forall>r. res \<noteq> PtrResultBroadcastTx r) \<Longrightarrow> interpretCheckTxOnly res err = Inl parseFailure"
  by (cases res) (simp_all add: interpretCheckTxOnly_def)

lemma broadcastTransaction_finished:
  assumes "transport_SignBuildBroadcast b m k s memo only = (res, None)"
  shows "fst (broadcastTransaction b FinishChan m k s memo only) =
           (if only then interpretCheckTxOnly res None else interpretCommit res None)"
  using assms by (simp add: broadcastTransaction_def)

lemma fixedBroadcast_answer:
  "transport_SignBuildBroadcast (fixedBroadcast res err) m k s memo only = (res, err)"
  by (simp add: fixedBroadcast_def)

text \<open>
  C1, as amended. In full-commit mode a response with a pending-pool code and an execution
  code is classified in this order: a pending-pool code whose low byte is 154 is the
  sequence conflict; else a non-zero pending-pool code fails as \<open>CheckTxFail\<close> with that
  code and log; else a non-zero execution code fails as \<open>DeliverTxFail\<close> with that code
  and log; else the call succeeds and the commit hash is the uppercase hexadecimal
  rendering of the hash bytes.
\<close>

theorem full_commit_classification:
  assumes "transport_SignBuildBroadcast b m k s memo False =
             (PtrResultBroadcastTxCommit r, None)"
  shows "fst (broadcastTransaction b FinishChan m k s memo False) =
     (if check_Code (CheckTx r) AND 0xff = 154 then
        Inl \<lparr>errCode = CodeInvalidSequenceNumber, errMsg = ''invalid seq'', errCause = None,
             blockChainCode = check_Code (CheckTx r), blockChainLog = check_Log (CheckTx r)\<rparr>
      else if check_Code (CheckTx r) \<noteq> 0 then
        Inl \<lparr>errCode = CodeCheckTxFail, errMsg = ''CheckTx failed!'', errCause = None,
             blockChainCode = check_Code (CheckTx r), blockChainLog = check_Log (CheckTx r)\<rparr>
      else if deliver_Code (DeliverTx r) \<noteq> 0 then
        Inl \<lparr>errCode = CodeDeliverTxFail, errMsg = ''DeliverTx failed!'', errCause = None,
             blockChainCode = deliver_Code (DeliverTx r),
             blockChainLog = deliver_Log (DeliverTx r)\<rparr>
      else Inr \<lparr>CommitHash = upperHex (commit_Hash r)\<rparr>)"
  by (simp only: broadcastTransaction_finished [OF assms] interpretCommit_eq if_False)

text \<open>
  The scenario of the specification: pending-pool code 0 and execution code 3 give the
  execution failure carrying code 3.
\<close>

theorem full_commit_classification_witness:
  "fst (broadcastTransaction (fixedBroadcast (PtrResultBroadcastTxCommit execRejected) None)
          FinishChan sampleMsg ''key'' 7 [] False) =
     Inl \<lparr>errCode = CodeDeliverTxFail, errMsg = ''DeliverTx failed!'', errCause = None,
          blockChainCode = 3, blockChainLog = ''no funds''\<rparr>"
proof -
  have h: "transport_SignBuildBroadcast
             (fixedBroadcast (PtrResultBroadcastTxCommit execRejected) None)
             sampleMsg ''key'' 7 [] False = (PtrResultBroadcastTxCommit execRejected, None)"
    by (rule fixedBroadcast_answer)
  show ?thesis
    using full_commit_classification [OF h] by (simp add: execRejected_def)
qed

text \<open>
  C1 as written fails: the pending-pool code 154 is not zero, and the call fails as the
  sequence conflict, not as \<open>CheckTxFail\<close>.
\<close>

theorem full_commit_pool_code_counterexample:
  "check_Code (CheckTx staleCommit) \<noteq> 0 \<and>
   fst (broadcastTransaction (fixedBroadcast (PtrResultBroadcastTxCommit staleCommit) None)
          FinishChan sampleMsg ''key'' 7 [] False) =
     Inl \<lparr>errCode = CodeInvalidSequenceNumber, errMsg = ''invalid seq'', errCause = None,
          blockChainCode = 154, blockChainLog = ''stale''\<rparr> \<and>
   fst (broadcastTransaction (fixedBroadcast (PtrResultBroadcastTxCommit staleCommit) None)
          FinishChan sampleMsg ''key'' 7 [] False) \<noteq>
     Inl \<lparr>errCode = CodeCheckTxFail, errMsg = ''CheckTx failed!'', errCause = None,
          blockChainCode = 154, blockChainLog = ''stale''\<rparr>"
  by (simp add: broadcastTransaction_def fixedBroadcast_def staleCommit_def interpretCommit_def
      retrieveCodeFromBlockChainCode_def InvalidSeqErrCode_def error_defs)

text \<open>
  C2. In both modes, a response whose pending-pool code has the low byte 154 is
  classified as \<open>InvalidSequenceNumber\<close> carrying the unmasked code and the log, whatever
  the higher bits of the code are; the code is then not zero, so the check comes before
  the check for a non-zero pending-pool code.
\<close>

theorem stale_sequence_by_low_byte:
  "(transport_SignBuildBroadcast b m k s memo True = (PtrResultBroadcastTx r, None) \<and>
    tx_Code r AND 0xff = 154 \<longrightarrow>
      tx_Code r \<noteq> 0 \<and>
      fst (broadcastTransaction b FinishChan m k s memo True) =
        Inl \<lparr>errCode = CodeInvalidSequenceNumber, errMsg = ''invalid seq'', errCause = None,
             blockChainCode = tx_Code r, blockChainLog = tx_Log r\<rparr>) \<and>
   (transport_SignBuildBroadcast b m k s memo False = (PtrResultBroadcastTxCommit c, None) \<and>
    check_Code (CheckTx c) AND 0xff = 154 \<longrightarrow>
      check_Code (CheckTx c) \<noteq> 0 \<and>
      fst (broadcastTransaction b FinishChan m k s memo False) =
        Inl \<lparr>errCode = CodeInvalidSequenceNumber, errMsg = ''invalid seq'', errCause = None,
             blockChainCode = check_Code (CheckTx c),
             blockChainLog = check_Log (CheckTx c)\<rparr>)"
proof -
  have nz: "x \<noteq> 0" if "x AND 0xff = 154" for x :: uint32
    using that by auto
  show ?thesis
    by (auto simp: broadcastTransaction_finished interpretCheckTxOnly_eq interpretCommit_eq
        dest: nz)
qed

theorem stale_sequence_by_low_byte_witness:
  "fst (broadcastTransaction (fixedBroadcast (PtrResultBroadcastTx namespacedStaleTx) None)
          FinishChan sampleMsg ''key'' 7 [] True) =
     Inl \<lparr>errCode = CodeInvalidSequenceNumber, errMsg = ''invalid seq'', errCause = None,
          blockChainCode = 0x19A, blockChainLog = ''stale''\<rparr> \<and>
   fst (broadcastTransaction
          (fixedBroadcast (PtrResultBroadcastTxCommit namespacedStaleCommit) None)
          FinishChan sampleMsg ''key'' 7 [] False) =
     Inl \<lparr>errCode = CodeInvalidSequenceNumber, errMsg = ''invalid seq'', errCause = None,
          blockChainCode = 0x1009A, blockChainLog = ''stale''\<rparr>"
proof -
  have t: "tx_Code namespacedStaleTx AND 0xff = 154"
    by (simp add: namespacedStaleTx_def)
  have c: "check_Code (CheckTx namespacedStaleCommit) AND 0xff = 154"
    by (simp add: namespacedStaleCommit_def)
  have "fst (broadcastTransaction (fixedBroadcast (PtrResultBroadcastTx namespacedStaleTx) None)
          FinishChan sampleMsg ''key'' 7 [] True) =
     Inl \<lparr>errCode = CodeInvalidSequenceNumber, errMsg = ''invalid seq'', errCause = None,
          blockChainCode = tx_Code namespacedStaleTx, blockChainLog = tx_Log namespacedStaleTx\<rparr>"
    using stale_sequence_by_low_byte
      [of "fixedBroadcast (PtrResultBroadcastTx namespacedStaleTx) None" sampleMsg "''key''" 7
        "[]" namespacedStaleTx] t
    by (simp add: fixedBroadcast_answer)
  moreover have "fst (broadcastTransaction
          (fixedBroadcast (PtrResultBroadcastTxCommit namespacedStaleCommit) None)
          FinishChan sampleMsg ''key'' 7 [] False) =
     Inl \<lparr>errCode = CodeInvalidSequenceNumber, errMsg = ''invalid seq'', errCause = None,
          blockChainCode = check_Code (CheckTx namespacedStaleCommit),
          blockChainLog = check_Log (CheckTx namespacedStaleCommit)\<rparr>"
    using stale_sequence_by_low_byte
      [of "fixedBroadcast (PtrResultBroadcastTxCommit namespacedStaleCommit) None" sampleMsg
        "''key''" 7 "[]" _ namespacedStaleCommit] c
    by (simp add: fixedBroadcast_answer)
  ultimately show ?thesis
    by (simp add: namespacedStaleTx_def namespacedStaleCommit_def)
qed

text \<open>
  C3, as amended. In confirm-only mode the outcome is a function of the pending-pool
  code, the log and the hash alone: a code whose low byte is 154 is the sequence
  conflict, any other non-zero code fails as \<open>CheckTxFail\<close> carrying code and log, and
  code 0 succeeds with the uppercase hexadecimal rendering of the hash bytes.
\<close>

theorem confirm_only_classification:
  assumes "transport_SignBuildBroadcast b m k s memo True = (PtrResultBroadcastTx r, None)"
  shows "fst (broadcastTransaction b FinishChan m k s memo True) =
     (if tx_Code r AND 0xff = 154 then
        Inl \<lparr>errCode = CodeInvalidSequenceNumber, errMsg = ''invalid seq'', errCause = None,
             blockChainCode = tx_Code r, blockChainLog = tx_Log r\<rparr>
      else if tx_Code r \<noteq> 0 then
        Inl \<lparr>errCode = CodeCheckTxFail, errMsg = ''CheckTx failed!'', errCause = None,
             blockChainCode = tx_Code r, blockChainLog = tx_Log r\<rparr>
      else Inr \<lparr>CommitHash = upperHex (tx_Hash r)\<rparr>)"
  by (simp only: broadcastTransaction_finished [OF assms] interpretCheckTxOnly_eq if_True)

text \<open>
  The scenario of the specification: pending-pool code 0 and hash bytes \<open>AB 12\<close> give the
  commit hash \<open>AB12\<close>.
\<close>

theorem confirm_only_classification_witness:
  "fst (broadcastTransaction (fixedBroadcast (PtrResultBroadcastTx acceptedTx) None)
          FinishChan sampleMsg ''key'' 7 [] True) = Inr \<lparr>CommitHash = ''AB12''\<rparr>"
proof -
  have h: "transport_SignBuildBroadcast (fixedBroadcast (PtrResultBroadcastTx acceptedTx) None)
             sampleMsg ''key'' 7 [] True = (PtrResultBroadcastTx acceptedTx, None)"
    by (rule fixedBroadcast_answer)
  show ?thesis
    using confirm_only_classification [OF h] by (simp add: acceptedTx_def upperHexTable_def)
qed

text \<open>
  C3 as written fails: the pending-pool code 154 is not zero, and the call fails as the
  sequence conflict, not as \<open>CheckTxFail\<close>.
\<close>

theorem confirm_only_pool_code_counterexample:
  "tx_Code staleTx \<noteq> 0 \<and>
   fst (broadcastTransaction (fixedBroadcast (PtrResultBroadcastTx staleTx) None)
          FinishChan sampleMsg ''key'' 7 [] True) =
     Inl \<lparr>errCode = CodeInvalidSequenceNumber, errMsg = ''invalid seq'', errCause = None,
          blockChainCode = 154, blockChainLog = ''stale''\<rparr> \<and>
   fst (broadcastTransaction (fixedBroadcast (PtrResultBroadcastTx staleTx) None)
          FinishChan sampleMsg ''key'' 7 [] True) \<noteq>
     Inl \<lparr>errCode = CodeCheckTxFail, errMsg = ''CheckTx failed!'', errCause = None,
          blockChainCode = 154, blockChainLog = ''stale''\<rparr>"
  by (simp add: broadcastTransaction_def fixedBroadcast_def staleTx_def interpretCheckTxOnly_def
      retrieveCodeFromBlockChainCode_def InvalidSeqErrCode_def error_defs)

text \<open>
  C10. In confirm-only mode no call returns a \<open>DeliverTxFail\<close> error, whatever the
  transport answers and whichever case of the select is taken; and when the transport
  has answered without an error, the outcome is the response-parse failure, or the
  response is a \<open>ResultBroadcastTx\<close> and the outcome is the sequence conflict, the
  \<open>CheckTxFail\<close> error or the success.
\<close>

theorem confirm_only_never_deliver_fail:
  "(\<forall>e. fst (broadcastTransaction b sel m k s memo True) = Inl e \<longrightarrow>
        errCode e \<noteq> CodeDeliverTxFail) \<and>
   (transport_SignBuildBroadcast b m k s memo True = (res, None) \<longrightarrow>
      fst (broadcastTransaction b FinishChan m k s memo True) = Inl parseFailure \<or>
      (\<exists>r. res = PtrResultBroadcastTx r \<and>
         (fst (broadcastTransaction b FinishChan m k s memo True) =
            Inl \<lparr>errCode = CodeInvalidSequenceNumber, errMsg = ''invalid seq'',
                 errCause = None, blockChainCode = tx_Code r, blockChainLog = tx_Log r\<rparr> \<or>
          fst (broadcastTransaction b FinishChan m k s memo True) =
            Inl \<lparr>errCode = CodeCheckTxFail, errMsg = ''CheckTx failed!'',
                 errCause = None, blockChainCode = tx_Code r, blockChainLog = tx_Log r\<rparr> \<or>
          fst (broadcastTransaction b FinishChan m k s memo True) =
            Inr \<lparr>CommitHash = upperHex (tx_Hash r)\<rparr>)))"
proof (intro conjI allI impI)
  fix e
  assume out: "fst (broadcastTransaction b sel m k s memo True) = Inl e"
  obtain res err where sbb: "transport_SignBuildBroadcast b m k s memo True = (res, err)"
    by (cases "transport_SignBuildBroadcast b m k s memo True")
  show "errCode e \<noteq> CodeDeliverTxFail"
  proof (cases sel)
    case (CtxDone c)
    with out sbb show ?thesis
      by (auto simp: broadcastTransaction_def error_defs)
  next
    case FinishChan
    show ?thesis
    proof (cases err)
      case (Some x)
      with out sbb FinishChan show ?thesis
        by (auto simp: broadcastTransaction_def error_defs)
    next
      case None
      show ?thesis
      proof (cases "\<exists>r. res = PtrResultBroadcastTx r")
        case True
        then obtain r where "res = PtrResultBroadcastTx r" ..
        with out sbb FinishChan None show ?thesis
          by (auto simp: broadcastTransaction_finished interpretCheckTxOnly_eq
              split: if_splits)
      next
        case False
        then have "interpretCheckTxOnly res None = Inl parseFailure"
          by (simp add: interpretCheckTxOnly_other)
        with out sbb FinishChan None show ?thesis
          by (auto simp: broadcastTransaction_finished error_defs)
      qed
    qed
  qed
next
  assume sbb: "transport_SignBuildBroadcast b m k s memo True = (res, None)"
  show "fst (broadcastTransaction b FinishChan m k s memo True) = Inl parseFailure \<or>
      (\<exists>r. res = PtrResultBroadcastTx r \<and>
         (fst (broadcastTransaction b FinishChan m k s memo True) =
            Inl \<lparr>errCode = CodeInvalidSequenceNumber, errMsg = ''invalid seq'',
                 errCause = None, blockChainCode = tx_Code r, blockChainLog = tx_Log r\<rparr> \<or>
          fst (broadcastTransaction b FinishChan m k s memo True) =
            Inl \<lparr>errCode = CodeCheckTxFail, errMsg = ''CheckTx failed!'',
                 errCause = None, blockChainCode = tx_Code r, blockChainLog = tx_Log r\<rparr> \<or>
          fst (broadcastTransaction b FinishChan m k s memo True) =
            Inr \<lparr>CommitHash = upperHex (tx_Hash r)\<rparr>))"
  proof (cases "\<exists>r. res = PtrResultBroadcastTx r")
    case True
    then obtain r where "res = PtrResultBroadcastTx r" ..
    with sbb show ?thesis
      by (simp add: broadcastTransaction_finished interpretCheckTxOnly_eq)
  next
    case False
    then have "interpretCheckTxOnly res None = Inl parseFailure"
      by (simp add: interpretCheckTxOnly_other)
    with sbb show ?thesis
      by (simp add: broadcastTransaction_finished)
  qed
qed

theorem confirm_only_never_deliver_fail_witness:
  "fst (broadcastTransaction (fixedBroadcast (PtrResultBroadcastTx rejectedTx) None)
          FinishChan sampleMsg ''key'' 7 [] True) =
     Inl \<lparr>errCode = CodeCheckTxFail, errMsg = ''CheckTx failed!'', errCause = None,
          blockChainCode = 5, blockChainLog = ''bad signature''\<rparr> \<and>
   errCode \<lparr>errCode = CodeCheckTxFail, errMsg = ''CheckTx failed!'', errCause = None,
          blockChainCode = 5, blockChainLog = ''bad signature''\<rparr> \<noteq> CodeDeliverTxFail"
proof -
  have out: "fst (broadcastTransaction (fixedBroadcast (PtrResultBroadcastTx rejectedTx) None)
          FinishChan sampleMsg ''key'' 7 [] True) =
     Inl \<lparr>errCode = CodeCheckTxFail, errMsg = ''CheckTx failed!'', errCause = None,
          blockChainCode = 5, blockChainLog = ''bad signature''\<rparr>"
    by (simp add: broadcastTransaction_def fixedBroadcast_def rejectedTx_def
        interpretCheckTxOnly_def retrieveCodeFromBlockChainCode_def InvalidSeqErrCode_def
        error_defs)
  from confirm_only_never_deliver_fail
    [of "fixedBroadcast (PtrResultBroadcastTx rejectedTx) None" FinishChan sampleMsg
      "''key''" 7 "[]" "PtrResultBroadcastTx rejectedTx"] out
  show ?thesis by (simp add: fixedBroadcast_answer)
qed

text \<open>
  When the select takes the case of the context, the outcome is the timeout error with
  the context's error as its cause, whatever the transport call returns.
\<close>

lemma select_ctx_done_is_timeout:
  "fst (broadcastTransaction b (CtxDone ctxErr) m k s memo only) =
     Inl \<lparr>errCode = CodeTimeout, errMsg = ''msg timeout: '' @ Sprintv b m,
          errCause = Some ctxErr, blockChainCode = 0, blockChainLog = []\<rparr>"
  by (simp add: broadcastTransaction_def error_defs split: prod.splits)

section \<open>Transport\<close>

lemma of_char_digit: "d < 10 \<Longrightarrow> (of_char (char_of (48 + d)) :: nat) = 48 + d"
  by simp

lemma undecimal_decimal: "undecimal (decimal n) = n"
proof (induction n rule: decimal.induct)
  case (1 n)
  show ?case
  proof (cases "n < 10")
    case True
    then show ?thesis
      by (subst decimal.simps) (simp add: undecimal_def)
  next
    case False
    with 1 have "undecimal (decimal (n div 10)) = n div 10" by simp
    with False show ?thesis
      by (subst decimal.simps) (simp add: undecimal_def)
  qed
qed

lemma decimal_digits: "\<forall>c\<in>set (decimal n). isDigit c"
proof (induction n rule: decimal.induct)
  case (1 n)
  show ?case
  proof (cases "n < 10")
    case True
    then show ?thesis
      by (subst decimal.simps) (simp add: isDigit_def)
  next
    case False
    with 1 have "\<forall>c\<in>set (decimal (n div 10)). isDigit c" by simp
    moreover have "n mod 10 < 10" by simp
    ultimately show ?thesis using False
      by (subst decimal.simps) (simp add: isDigit_def)
  qed
qed

lemma decimal_inj: "decimal m = decimal n \<Longrightarrow> m = n"
  by (metis undecimal_decimal)

lemma takeWhile_digits:
  "\<forall>c\<in>set ds. isDigit c \<Longrightarrow> takeWhile isDigit (ds @ CHR '')'' # rest) = ds"
  by (induction ds) (simp_all add: isDigit_def)

lemma dropWhile_digits:
  "\<forall>c\<in>set ds. isDigit c \<Longrightarrow> dropWhile isDigit (ds @ CHR '')'' # rest) = CHR '')'' # rest"
  by (induction ds) (simp_all add: isDigit_def)

lemma code_and_log_inj:
  assumes "decimal (unat (c :: uint32)) @ '') '' @ l = decimal (unat c') @ '') '' @ l'"
  shows "c = c' \<and> l = l'"
proof -
  have "takeWhile isDigit (decimal (unat c) @ CHR '')'' # (CHR '' '' # l)) =
        takeWhile isDigit (decimal (unat c') @ CHR '')'' # (CHR '' '' # l'))"
    using assms by simp
  then have "decimal (unat c) = decimal (unat c')"
    by (simp only: takeWhile_digits [OF decimal_digits])
  then have c: "c = c'"
    using decimal_inj by (simp add: word_unat_eq_iff)
  with assms show ?thesis by simp
qed

lemma queryFailed_inj: "queryFailed c l = queryFailed c' l' \<longleftrightarrow> c = c' \<and> l = l'"
  using code_and_log_inj [of c l c' l'] by (auto simp: queryFailed_def)

text \<open>
  C6. A point query on a connected transport whose node answers: with response code 0
  the value bytes are returned as they are, empty or not; with any other code the
  result is an error and no bytes, and the error is the text built from that code and
  that log, which no other code or log gives.
\<close>

theorem point_query_by_code:
  assumes "client t = Some node"
    and "ABCIQuery node (''/'' @ storeName @ ''/key'') key = Inr resp"
  shows "fst (Query t key storeName) =
           (if query_Code resp = 0 then Inr (query_Value resp)
            else Inl (queryFailed (query_Code resp) (query_Log resp))) \<and>
         (\<forall>c l. queryFailed c l = queryFailed (query_Code resp) (query_Log resp) \<longrightarrow>
                c = query_Code resp \<and> l = query_Log resp)"
  using assms by (simp add: Query_def GetNode_def queryFailed_inj)

theorem point_query_by_code_witness:
  "fst (Query connected [1] ''post'') = Inr [] \<and>
   fst (Query connected [2] ''post'') = Inl ''Query failed: (7) not found''"
proof -
  have c: "client connected = Some sampleClient"
    by (simp add: connected_def)
  have a1: "ABCIQuery sampleClient (''/'' @ ''post'' @ ''/key'') [1] =
              Inr \<lparr>query_Code = 0, query_Value = [], query_Log = []\<rparr>"
    by (simp add: sampleClient_def)
  have a2: "ABCIQuery sampleClient (''/'' @ ''post'' @ ''/key'') [2] =
              Inr \<lparr>query_Code = 7, query_Value = [], query_Log = ''not found''\<rparr>"
    by (simp add: sampleClient_def)
  have d: "decimal 7 = ''7''"
    by code_simp
  from point_query_by_code [OF c a1] point_query_by_code [OF c a2] d
  show ?thesis by (simp add: queryFailed_def)
qed

text \<open>
  C7. On a transport whose client is nil, the point query and the broadcast return the
  error of \<open>GetNode\<close> and send nothing to a node; \<open>SignBuildBroadcast\<close>, which ends in
  that broadcast, sends nothing either, and when it returns it returns that error.
\<close>

theorem no_client_no_request:
  assumes "client t = None"
  shows "Query t key storeName = (Inl ''Must define node URI'', []) \<and>
         BroadcastTx t tx = ((None, Some ''Must define node URI''), []) \<and>
         snd (SignBuildBroadcast enc t msg privKey seq) = [] \<and>
         (\<forall>r. fst (SignBuildBroadcast enc t msg privKey seq) = Return r \<longrightarrow>
              r = (None, Some ''Must define node URI''))"
  using assms
  by (auto simp: Query_def BroadcastTx_def GetNode_def SignBuildBroadcast_def Let_def
      split: sum.splits)

theorem no_client_no_request_witness:
  "Query unconnected [1] ''post'' = (Inl ''Must define node URI'', []) \<and>
   BroadcastTx unconnected [9] = ((None, Some ''Must define node URI''), []) \<and>
   SignBuildBroadcast sampleSigner unconnected sampleMsg [5] 7 =
     (Return (None, Some ''Must define node URI''), [])"
proof -
  have c: "client unconnected = None"
    by (simp add: unconnected_def)
  have r: "fst (SignBuildBroadcast sampleSigner unconnected sampleMsg [5] 7) =
             Return (fst (BroadcastTx unconnected ([5] @ [1])))"
    by (simp add: SignBuildBroadcast_def sampleSigner_def Let_def split: prod.splits)
  from no_client_no_request [OF c, of "[1]" "''post''" "[9]" sampleSigner sampleMsg "[5]" 7]
    no_client_no_request [OF c, of "[1]" "''post''" "[5] @ [1]" sampleSigner sampleMsg "[5]" 7] r
  show ?thesis
    by (simp add: prod_eq_iff)
qed

section \<open>Range scans\<close>

lemma firstError_Some:
  "\<exists>x\<in>set xs. f x \<noteq> None \<Longrightarrow> \<exists>err. firstError f xs = Some err"
  by (induction xs) (auto split: option.splits)

lemma firstError_None: "firstError f xs = None \<longleftrightarrow> (\<forall>x\<in>set xs. f x = None)"
  by (induction xs) (auto split: option.splits)

lemma userAllPostsLoop_fails:
  "firstError (postEntryError query) resKVs = Some err \<Longrightarrow> userAllPostsLoop query resKVs m = Inl err"
proof (induction resKVs arbitrary: m)
  case Nil
  then show ?case by simp
next
  case (Cons KV resKVs)
  show ?case
  proof (cases "postEntryError query KV")
    case None
    with Cons.prems have "firstError (postEntryError query) resKVs = Some err" by simp
    then have "\<And>m'. userAllPostsLoop query resKVs m' = Inl err" by (rule Cons.IH)
    with None show ?thesis
      by (auto simp: postEntryError_def split: sum.splits)
  next
    case (Some e)
    with Cons.prems have "e = err" by simp
    with Some show ?thesis
      by (auto simp: postEntryError_def split: sum.splits)
  qed
qed

lemma userAllPostsLoop_succeeds:
  "firstError (postEntryError query) resKVs = None \<Longrightarrow> \<exists>m'. userAllPostsLoop query resKVs m = Inr m'"
proof (induction resKVs arbitrary: m)
  case Nil
  then show ?case by simp
next
  case (Cons KV resKVs)
  from Cons.prems have here: "postEntryError query KV = None"
    and rest: "firstError (postEntryError query) resKVs = None"
    by (auto split: option.splits)
  from here Cons.IH [OF rest] show ?case
    by (auto simp: postEntryError_def split: sum.splits)
qed

lemma postAllCommentsLoop_fails:
  "firstError (commentEntryError query) resKVs = Some err \<Longrightarrow> postAllCommentsLoop query resKVs m = Inl err"
proof (induction resKVs arbitrary: m)
  case Nil
  then show ?case by simp
next
  case (Cons KV resKVs)
  show ?case
  proof (cases "commentEntryError query KV")
    case None
    with Cons.prems have "firstError (commentEntryError query) resKVs = Some err" by simp
    then have "\<And>m'. postAllCommentsLoop query resKVs m' = Inl err" by (rule Cons.IH)
    with None show ?thesis
      by (auto simp: commentEntryError_def split: sum.splits)
  next
    case (Some e)
    with Cons.prems have "e = err" by simp
    with Some show ?thesis
      by (auto simp: commentEntryError_def split: sum.splits)
  qed
qed

lemma postAllCommentsLoop_succeeds:
  "firstError (commentEntryError query) resKVs = None \<Longrightarrow> \<exists>m'. postAllCommentsLoop query resKVs m = Inr m'"
proof (induction resKVs arbitrary: m)
  case Nil
  then show ?case by simp
next
  case (Cons KV resKVs)
  from Cons.prems have here: "commentEntryError query KV = None"
    and rest: "firstError (commentEntryError query) resKVs = None"
    by (auto split: option.splits)
  from here Cons.IH [OF rest] show ?case
    by (auto simp: commentEntryError_def split: sum.splits)
qed

lemma postAllViewsLoop_fails:
  "firstError (viewEntryError query) resKVs = Some err \<Longrightarrow> postAllViewsLoop query resKVs m = Inl err"
proof (induction resKVs arbitrary: m)
  case Nil
  then show ?case by simp
next
  case (Cons KV resKVs)
  show ?case
  proof (cases "viewEntryError query KV")
    case None
    with Cons.prems have "firstError (viewEntryError query) resKVs = Some err" by simp
    then have "\<And>m'. postAllViewsLoop query resKVs m' = Inl err" by (rule Cons.IH)
    with None show ?thesis
      by (auto simp: viewEntryError_def split: sum.splits)
  next
    case (Some e)
    with Cons.prems have "e = err" by simp
    with Some show ?thesis
      by (auto simp: viewEntryError_def split: sum.splits)
  qed
qed

lemma postAllViewsLoop_succeeds:
  "firstError (viewEntryError query) resKVs = None \<Longrightarrow> \<exists>m'. postAllViewsLoop query resKVs m = Inr m'"
proof (induction resKVs arbitrary: m)
  case Nil
  then show ?case by simp
next
  case (Cons KV resKVs)
  from Cons.prems have here: "viewEntryError query KV = None"
    and rest: "firstError (viewEntryError query) resKVs = None"
    by (auto split: option.splits)
  from here Cons.IH [OF rest] show ?case
    by (auto simp: viewEntryError_def split: sum.splits)
qed

lemma postAllDonationsLoop_fails:
  "firstError (donationsEntryError query) resKVs = Some err \<Longrightarrow> postAllDonationsLoop query resKVs m = Inl err"
proof (induction resKVs arbitrary: m)
  case Nil
  then show ?case by simp
next
  case (Cons KV resKVs)
  show ?case
  proof (cases "donationsEntryError query KV")
    case None
    with Cons.prems have "firstError (donationsEntryError query) resKVs = Some err" by simp
    then have "\<And>m'. postAllDonationsLoop query resKVs m' = Inl err" by (rule Cons.IH)
    with None show ?thesis
      by (auto simp: donationsEntryError_def split: sum.splits)
  next
    case (Some e)
    with Cons.prems have "e = err" by simp
    with Some show ?thesis
      by (auto simp: donationsEntryError_def split: sum.splits)
  qed
qed

lemma postAllDonationsLoop_succeeds:
  "firstError (donationsEntryError query) resKVs = None \<Longrightarrow> \<exists>m'. postAllDonationsLoop query resKVs m = Inr m'"
proof (induction resKVs arbitrary: m)
  case Nil
  then show ?case by simp
next
  case (Cons KV resKVs)
  from Cons.prems have here: "donationsEntryError query KV = None"
    and rest: "firstError (donationsEntryError query) resKVs = None"
    by (auto split: option.splits)
  from here Cons.IH [OF rest] show ?case
    by (auto simp: donationsEntryError_def split: sum.splits)
qed

lemma postAllReportOrUpvotesLoop_fails:
  "firstError (reportOrUpvoteEntryError query) resKVs = Some err \<Longrightarrow> postAllReportOrUpvotesLoop query resKVs m = Inl err"
proof (induction resKVs arbitrary: m)
  case Nil
  then show ?case by simp
next
  case (Cons KV resKVs)
  show ?case
  proof (cases "reportOrUpvoteEntryError query KV")
    case None
    with Cons.prems have "firstError (reportOrUpvoteEntryError query) resKVs = Some err" by simp
    then have "\<And>m'. postAllReportOrUpvotesLoop query resKVs m' = Inl err" by (rule Cons.IH)
    with None show ?thesis
      by (auto simp: reportOrUpvoteEntryError_def split: sum.splits)
  next
    case (Some e)
    with Cons.prems have "e = err" by simp
    with Some show ?thesis
      by (auto simp: reportOrUpvoteEntryError_def split: sum.splits)
  qed
qed

lemma postAllReportOrUpvotesLoop_succeeds:
  "firstError (reportOrUpvoteEntryError query) resKVs = None \<Longrightarrow> \<exists>m'. postAllReportOrUpvotesLoop query resKVs m = Inr m'"
proof (induction resKVs arbitrary: m)
  case Nil
  then show ?case by simp
next
  case (Cons KV resKVs)
  from Cons.prems have here: "reportOrUpvoteEntryError query KV = None"
    and rest: "firstError (reportOrUpvoteEntryError query) resKVs = None"
    by (auto split: option.splits)
  from here Cons.IH [OF rest] show ?case
    by (auto simp: reportOrUpvoteEntryError_def split: sum.splits)
qed

lemma GetUserAllPosts_fails:
  assumes q: "transport_QuerySubspace query
                (getUserPostInfoPrefix query username @ PermLinkSeparator query)
                (PostKVStoreKey query) = Inr resKVs"
    and ex: "\<exists>KV\<in>set resKVs. postEntryError query KV \<noteq> None"
  shows "\<exists>err. firstError (postEntryError query) resKVs = Some err \<and>
               GetUserAllPosts query username = Inl err"
proof -
  from firstError_Some [OF ex]
  obtain err where e: "firstError (postEntryError query) resKVs = Some err" ..
  have "GetUserAllPosts query username = Inl err"
    unfolding GetUserAllPosts_def
    by (simp only: q sum.case userAllPostsLoop_fails [OF e])
  with e show ?thesis by blast
qed

lemma GetPostAllComments_fails:
  assumes q: "transport_QuerySubspace query
                (getPostCommentPrefix query (getPermlink query author postID))
                (PostKVStoreKey query) = Inr resKVs"
    and ex: "\<exists>KV\<in>set resKVs. commentEntryError query KV \<noteq> None"
  shows "\<exists>err. firstError (commentEntryError query) resKVs = Some err \<and>
               GetPostAllComments query author postID = Inl err"
proof -
  from firstError_Some [OF ex]
  obtain err where e: "firstError (commentEntryError query) resKVs = Some err" ..
  have "GetPostAllComments query author postID = Inl err"
    unfolding GetPostAllComments_def Let_def
    by (simp only: q sum.case postAllCommentsLoop_fails [OF e])
  with e show ?thesis by blast
qed

lemma GetPostAllViews_fails:
  assumes q: "transport_QuerySubspace query
                (getPostViewPrefix query (getPermlink query author postID))
                (PostKVStoreKey query) = Inr resKVs"
    and ex: "\<exists>KV\<in>set resKVs. viewEntryError query KV \<noteq> None"
  shows "\<exists>err. firstError (viewEntryError query) resKVs = Some err \<and>
               GetPostAllViews query author postID = Inl err"
proof -
  from firstError_Some [OF ex]
  obtain err where e: "firstError (viewEntryError query) resKVs = Some err" ..
  have "GetPostAllViews query author postID = Inl err"
    unfolding GetPostAllViews_def Let_def
    by (simp only: q sum.case postAllViewsLoop_fails [OF e])
  with e show ?thesis by blast
qed

lemma GetPostAllDonations_fails:
  assumes q: "transport_QuerySubspace query
                (getPostDonationsPrefix query (getPermlink query author postID))
                (PostKVStoreKey query) = Inr resKVs"
    and ex: "\<exists>KV\<in>set resKVs. donationsEntryError query KV \<noteq> None"
  shows "\<exists>err. firstError (donationsEntryError query) resKVs = Some err \<and>
               GetPostAllDonations query author postID = Inl err"
proof -
  from firstError_Some [OF ex]
  obtain err where e: "firstError (donationsEntryError query) resKVs = Some err" ..
  have "GetPostAllDonations query author postID = Inl err"
    unfolding GetPostAllDonations_def Let_def
    by (simp only: q sum.case postAllDonationsLoop_fails [OF e])
  with e show ?thesis by blast
qed

lemma GetPostAllReportOrUpvotes_fails:
  assumes q: "transport_QuerySubspace query
                (getPostReportOrUpvotePrefix query (getPermlink query author postID))
                (PostKVStoreKey query) = Inr resKVs"
    and ex: "\<exists>KV\<in>set resKVs. reportOrUpvoteEntryError query KV \<noteq> None"
  shows "\<exists>err. firstError (reportOrUpvoteEntryError query) resKVs = Some err \<and>
               GetPostAllReportOrUpvotes query author postID = Inl err"
proof -
  from firstError_Some [OF ex]
  obtain err where e: "firstError (reportOrUpvoteEntryError query) resKVs = Some err" ..
  have "GetPostAllReportOrUpvotes query author postID = Inl err"
    unfolding GetPostAllReportOrUpvotes_def Let_def
    by (simp only: q sum.case postAllReportOrUpvotesLoop_fails [OF e])
  with e show ?thesis by blast
qed

text \<open>
  C5. Each of the five range-scan queries of the post store, \<open>GetUserAllPosts\<close>,
  \<open>GetPostAllComments\<close>, \<open>GetPostAllViews\<close>, \<open>GetPostAllDonations\<close> and
  \<open>GetPostAllReportOrUpvotes\<close>: when the scan has returned its pairs and one of them
  has a value that does not decode at the record type of the query (or, for
  \<open>GetUserAllPosts\<close>, decodes to a post whose metadata lookup fails), the operation
  returns an error and no map, and the error is that of the first such pair.
\<close>

theorem range_scan_fails_fast:
  "(transport_QuerySubspace query
      (getUserPostInfoPrefix query username @ PermLinkSeparator query)
      (PostKVStoreKey query) = Inr posts \<and>
    (\<exists>KV\<in>set posts. postEntryError query KV \<noteq> None) \<longrightarrow>
      (\<exists>err. firstError (postEntryError query) posts = Some err \<and>
             GetUserAllPosts query username = Inl err)) \<and>
   (transport_QuerySubspace query
      (getPostCommentPrefix query (getPermlink query author postID))
      (PostKVStoreKey query) = Inr comments \<and>
    (\<exists>KV\<in>set comments. commentEntryError query KV \<noteq> None) \<longrightarrow>
      (\<exists>err. firstError (commentEntryError query) comments = Some err \<and>
             GetPostAllComments query author postID = Inl err)) \<and>
   (transport_QuerySubspace query
      (getPostViewPrefix query (getPermlink query author postID))
      (PostKVStoreKey query) = Inr views \<and>
    (\<exists>KV\<in>set views. viewEntryError query KV \<noteq> None) \<longrightarrow>
      (\<exists>err. firstError (viewEntryError query) views = Some err \<and>
             GetPostAllViews query author postID = Inl err)) \<and>
   (transport_QuerySubspace query
      (getPostDonationsPrefix query (getPermlink query author postID))
      (PostKVStoreKey query) = Inr donations \<and>
    (\<exists>KV\<in>set donations. donationsEntryError query KV \<noteq> None) \<longrightarrow>
      (\<exists>err. firstError (donationsEntryError query) donations = Some err \<and>
             GetPostAllDonations query author postID = Inl err)) \<and>
   (transport_QuerySubspace query
      (getPostReportOrUpvotePrefix query (getPermlink query author postID))
      (PostKVStoreKey query) = Inr reports \<and>
    (\<exists>KV\<in>set reports. reportOrUpvoteEntryError query KV \<noteq> None) \<longrightarrow>
      (\<exists>err. firstError (reportOrUpvoteEntryError query) reports = Some err \<and>
             GetPostAllReportOrUpvotes query author postID = Inl err))"
  by (intro conjI impI; elim conjE)
    (rule GetUserAllPosts_fails GetPostAllComments_fails GetPostAllViews_fails
       GetPostAllDonations_fails GetPostAllReportOrUpvotes_fails; assumption)+

lemma sampleQuery_fields:
  "transport_QuerySubspace sampleQuery p s =
     Inr [\<lparr>kv_Key = [10], kv_Value = [1]\<rparr>, \<lparr>kv_Key = [11], kv_Value = [2]\<rparr>,
          \<lparr>kv_Key = [12], kv_Value = [1]\<rparr>]"
  "transport_QuerySubspace sampleQueryNoMeta p s =
     Inr [\<lparr>kv_Key = [10], kv_Value = [1]\<rparr>, \<lparr>kv_Key = [11], kv_Value = [2]\<rparr>,
          \<lparr>kv_Key = [12], kv_Value = [1]\<rparr>]"
  by (simp_all add: sampleQuery_def sampleQueryNoMeta_def)

lemma sample_entry_errors:
  "postEntryError sampleQuery \<lparr>kv_Key = [10], kv_Value = [1]\<rparr> = None"
  "postEntryError sampleQuery \<lparr>kv_Key = [11], kv_Value = [2]\<rparr> = Some ''invalid character''"
  "postEntryError sampleQueryNoMeta \<lparr>kv_Key = [10], kv_Value = [1]\<rparr> =
     Some ''Query failed: (7) not found''"
  "commentEntryError sampleQuery \<lparr>kv_Key = [10], kv_Value = [1]\<rparr> = None"
  "commentEntryError sampleQuery \<lparr>kv_Key = [11], kv_Value = [2]\<rparr> = Some ''invalid character''"
  "viewEntryError sampleQuery \<lparr>kv_Key = [10], kv_Value = [1]\<rparr> = None"
  "viewEntryError sampleQuery \<lparr>kv_Key = [11], kv_Value = [2]\<rparr> = Some ''invalid character''"
  "donationsEntryError sampleQuery \<lparr>kv_Key = [10], kv_Value = [1]\<rparr> = None"
  "donationsEntryError sampleQuery \<lparr>kv_Key = [11], kv_Value = [2]\<rparr> =
     Some ''invalid character''"
  "reportOrUpvoteEntryError sampleQuery \<lparr>kv_Key = [10], kv_Value = [1]\<rparr> = None"
  "reportOrUpvoteEntryError sampleQuery \<lparr>kv_Key = [11], kv_Value = [2]\<rparr> =
     Some ''invalid character''"
  by (simp_all add: postEntryError_def commentEntryError_def viewEntryError_def
      donationsEntryError_def reportOrUpvoteEntryError_def GetPostMeta_def sampleQuery_def
      sampleQueryNoMeta_def Let_def)

theorem range_scan_fails_fast_witness:
  "GetUserAllPosts sampleQuery ''alice'' = Inl ''invalid character'' \<and>
   GetUserAllPosts sampleQueryNoMeta ''alice'' = Inl ''Query failed: (7) not found'' \<and>
   GetPostAllComments sampleQuery ''alice'' ''1article'' = Inl ''invalid character'' \<and>
   GetPostAllViews sampleQuery ''alice'' ''1article'' = Inl ''invalid character'' \<and>
   GetPostAllDonations sampleQuery ''alice'' ''1article'' = Inl ''invalid character'' \<and>
   GetPostAllReportOrUpvotes sampleQuery ''alice'' ''1article'' = Inl ''invalid character''"
proof -
  let ?kvs = "[\<lparr>kv_Key = [10], kv_Value = [1]\<rparr>, \<lparr>kv_Key = [11], kv_Value = [2]\<rparr>,
               \<lparr>kv_Key = [12], kv_Value = [1]\<rparr>]"
  have p: "\<exists>KV\<in>set ?kvs. postEntryError sampleQuery KV \<noteq> None"
    by (simp add: sample_entry_errors)
  have n: "\<exists>KV\<in>set ?kvs. postEntryError sampleQueryNoMeta KV \<noteq> None"
    by (simp add: sample_entry_errors)
  have c: "\<exists>KV\<in>set ?kvs. commentEntryError sampleQuery KV \<noteq> None"
    by (simp add: sample_entry_errors)
  have v: "\<exists>KV\<in>set ?kvs. viewEntryError sampleQuery KV \<noteq> None"
    by (simp add: sample_entry_errors)
  have d: "\<exists>KV\<in>set ?kvs. donationsEntryError sampleQuery KV \<noteq> None"
    by (simp add: sample_entry_errors)
  have r: "\<exists>KV\<in>set ?kvs. reportOrUpvoteEntryError sampleQuery KV \<noteq> None"
    by (simp add: sample_entry_errors)
  note inst = range_scan_fails_fast
    [of sampleQuery "''alice''" ?kvs "''alice''" "''1article''" ?kvs ?kvs ?kvs ?kvs]
  from inst p
  have 1: "GetUserAllPosts sampleQuery ''alice'' = Inl ''invalid character''"
    by (auto simp: sampleQuery_fields sample_entry_errors)
  from inst c
  have 3: "GetPostAllComments sampleQuery ''alice'' ''1article'' = Inl ''invalid character''"
    by (auto simp: sampleQuery_fields sample_entry_errors)
  from inst v
  have 4: "GetPostAllViews sampleQuery ''alice'' ''1article'' = Inl ''invalid character''"
    by (auto simp: sampleQuery_fields sample_entry_errors)
  from inst d
  have 5: "GetPostAllDonations sampleQuery ''alice'' ''1article'' = Inl ''invalid character''"
    by (auto simp: sampleQuery_fields sample_entry_errors)
  from inst r
  have 6: "GetPostAllReportOrUpvotes sampleQuery ''alice'' ''1article'' =
             Inl ''invalid character''"
    by (auto simp: sampleQuery_fields sample_entry_errors)
  from range_scan_fails_fast
    [of sampleQueryNoMeta "''alice''" ?kvs "''alice''" "''1article''" "[]" "[]" "[]" "[]"] n
  have 2: "GetUserAllPosts sampleQueryNoMeta ''alice'' = Inl ''Query failed: (7) not found''"
    by (auto simp: sampleQuery_fields sample_entry_errors)
  from 1 2 3 4 5 6 show ?thesis by simp
qed

lemma takeWhile_digits_then:
  "\<forall>c\<in>set ds. isDigit c \<Longrightarrow> \<not> isDigit x \<Longrightarrow> takeWhile isDigit (ds @ x # rest) = ds"
  by (induction ds) simp_all

lemma colon_no_digit: "\<not> isDigit CHR '':''"
  by (simp add: isDigit_def)

lemma frame_cancel [simp]: "frame a @ x = frame b @ y \<longleftrightarrow> a = b \<and> x = y"
proof
  assume eq: "frame a @ x = frame b @ y"
  have "decimal (length a) =
          takeWhile isDigit (decimal (length a) @ CHR '':'' # (a @ x))"
    by (rule takeWhile_digits_then [OF decimal_digits colon_no_digit, symmetric])
  also have "\<dots> = takeWhile isDigit (decimal (length b) @ CHR '':'' # (b @ y))"
    using eq by (simp add: frame_def)
  also have "\<dots> = decimal (length b)"
    by (rule takeWhile_digits_then [OF decimal_digits colon_no_digit])
  finally have "length a = length b"
    by (rule decimal_inj)
  with eq show "a = b \<and> x = y"
    by (simp add: frame_def)
qed simp

lemma frame_inj [simp]: "frame a = frame b \<longleftrightarrow> a = b"
  using frame_cancel [of a "[]" b "[]"] by simp



lemma char_of_byte_inj: "char_of (unat (b :: 8 word)) = char_of (unat b') \<Longrightarrow> b = b'"
proof -
  assume "char_of (unat b) = char_of (unat b')"
  then have "unat b mod 256 = unat b' mod 256" by simp
  moreover have "unat b < 256" and "unat b' < 256"
    using unsigned_less [of b, where 'a = nat] unsigned_less [of b', where 'a = nat]
    by simp_all
  ultimately show ?thesis by (simp add: word_unat_eq_iff)
qed

lemma inj_char_of_byte: "inj (\<lambda>b :: 8 word. char_of (unat b))"
  by (rule injI) (rule char_of_byte_inj)


lemma textOf_inj [simp]: "textOf a = textOf b \<longleftrightarrow> a = b"
  unfolding textOf_def by (rule inj_map_eq_map [OF inj_char_of_byte])

lemma encodeLinks_cancel:
  "encodeLinks xs @ r = encodeLinks ys @ r' \<longleftrightarrow> xs = ys \<and> r = r'"
proof (induction xs arbitrary: ys)
  case Nil
  show ?case by (cases ys) auto
next
  case (Cons x xs)
  show ?case
  proof (cases ys)
    case Nil
    then show ?thesis by auto
  next
    case (Cons y ys')
    have "x = y \<longleftrightarrow> Identifier x = Identifier y \<and> URL x = URL y"
      by (cases x, cases y) simp
    with Cons.IH [of ys'] Cons show ?thesis
      by auto
  qed
qed

lemma encodeLinks_inj [simp]: "encodeLinks xs = encodeLinks ys \<longleftrightarrow> xs = ys"
  using encodeLinks_cancel [of xs "[]" ys "[]"] by simp



section \<open>Public keys given in hexadecimal\<close>

lemma firstKeyError_Some:
  "\<exists>k\<in>set ks. isl (transport_GetPubKeyFromHex b k) \<Longrightarrow> \<exists>err. firstKeyError b ks = Some err"
  by (induction ks) (auto split: sum.splits)

text \<open>
  C8. When one of the hex-encoded public keys given to \<open>Register\<close>, \<open>Recover\<close>,
  \<open>ValidatorDeposit\<close> or \<open>RevokePermission\<close> does not parse, the call returns an error
  of the class \<open>FailedToGetPubKeyFromHex\<close> whose cause is the parse error of the first
  such key, and it has started no call of the transport: nothing is signed or sent.
\<close>

theorem unparsable_public_key_stops_call:
  "((\<exists>k\<in>set [resetHex, txHex, appHex]. isl (transport_GetPubKeyFromHex b k)) \<longrightarrow>
      (\<exists>e err. firstKeyError b [resetHex, txHex, appHex] = Some err \<and>
         Register b ctx referrer fee user resetHex txHex appHex privHex seq = (Inl e, []) \<and>
         errCode e = CodeFailedToGetPubKeyFromHex \<and> errCause e = Some err)) \<and>
   ((\<exists>k\<in>set [resetHex, txHex, appHex]. isl (transport_GetPubKeyFromHex b k)) \<longrightarrow>
      (\<exists>e err. firstKeyError b [resetHex, txHex, appHex] = Some err \<and>
         Recover b ctx user resetHex txHex appHex privHex seq = (Inl e, []) \<and>
         errCode e = CodeFailedToGetPubKeyFromHex \<and> errCause e = Some err)) \<and>
   (isl (transport_GetPubKeyFromHex b valHex) \<longrightarrow>
      (\<exists>e err. transport_GetPubKeyFromHex b valHex = Inl err \<and>
         ValidatorDeposit b ctx user deposit valHex link privHex seq = (Inl e, []) \<and>
         errCode e = CodeFailedToGetPubKeyFromHex \<and> errCause e = Some err)) \<and>
   (isl (transport_GetPubKeyFromHex b pubHex) \<longrightarrow>
      (\<exists>e err. transport_GetPubKeyFromHex b pubHex = Inl err \<and>
         RevokePermission b ctx user pubHex privHex seq = (Inl e, []) \<and>
         errCode e = CodeFailedToGetPubKeyFromHex \<and> errCause e = Some err))"
proof (intro conjI impI)
  assume "\<exists>k\<in>set [resetHex, txHex, appHex]. isl (transport_GetPubKeyFromHex b k)"
  from firstKeyError_Some [OF this]
  obtain err where e: "firstKeyError b [resetHex, txHex, appHex] = Some err" ..
  then show "\<exists>e err. firstKeyError b [resetHex, txHex, appHex] = Some err \<and>
         Register b ctx referrer fee user resetHex txHex appHex privHex seq = (Inl e, []) \<and>
         errCode e = CodeFailedToGetPubKeyFromHex \<and> errCause e = Some err"
    by (simp add: Register_def error_defs split: sum.splits)
  from e show "\<exists>e err. firstKeyError b [resetHex, txHex, appHex] = Some err \<and>
         Recover b ctx user resetHex txHex appHex privHex seq = (Inl e, []) \<and>
         errCode e = CodeFailedToGetPubKeyFromHex \<and> errCause e = Some err"
    by (simp add: Recover_def error_defs split: sum.splits)
next
  assume "isl (transport_GetPubKeyFromHex b valHex)"
  then obtain err where "transport_GetPubKeyFromHex b valHex = Inl err"
    by (cases "transport_GetPubKeyFromHex b valHex") simp_all
  then show "\<exists>e err. transport_GetPubKeyFromHex b valHex = Inl err \<and>
         ValidatorDeposit b ctx user deposit valHex link privHex seq = (Inl e, []) \<and>
         errCode e = CodeFailedToGetPubKeyFromHex \<and> errCause e = Some err"
    by (simp add: ValidatorDeposit_def error_defs)
next
  assume "isl (transport_GetPubKeyFromHex b pubHex)"
  then obtain err where "transport_GetPubKeyFromHex b pubHex = Inl err"
    by (cases "transport_GetPubKeyFromHex b pubHex") simp_all
  then show "\<exists>e err. transport_GetPubKeyFromHex b pubHex = Inl err \<and>
         RevokePermission b ctx user pubHex privHex seq = (Inl e, []) \<and>
         errCode e = CodeFailedToGetPubKeyFromHex \<and> errCause e = Some err"
    by (simp add: RevokePermission_def error_defs)
qed

theorem unparsable_public_key_stops_call_witness:
  "isl (transport_GetPubKeyFromHex (fixedBroadcast NilResult None) ''abc'') \<and>
   Register (fixedBroadcast NilResult None) FinishChan ''ref'' ''1'' ''alice''
       ''ab'' ''abc'' ''cd'' ''ef'' 7 =
     (Inl \<lparr>errCode = CodeFailedToGetPubKeyFromHex,
           errMsg = ''Register: failed to get Tx pub key'',
           errCause = Some ''odd length hex string: abc'',
           blockChainCode = 0, blockChainLog = []\<rparr>, []) \<and>
   (\<exists>e. Recover (fixedBroadcast NilResult None) FinishChan ''alice''
          ''ab'' ''abc'' ''cd'' ''ef'' 7 = (Inl e, [])) \<and>
   (\<exists>e. ValidatorDeposit (fixedBroadcast NilResult None) FinishChan ''alice'' ''10''
          ''abc'' ''link'' ''ef'' 7 = (Inl e, [])) \<and>
   (\<exists>e. RevokePermission (fixedBroadcast NilResult None) FinishChan ''alice''
          ''abc'' ''ef'' 7 = (Inl e, []))"
proof -
  let ?b = "fixedBroadcast NilResult None"
  have bad: "isl (transport_GetPubKeyFromHex ?b ''abc'')"
    by (simp add: fixedBroadcast_def)
  then have some: "\<exists>k\<in>set [''ab'', ''abc'', ''cd'']. isl (transport_GetPubKeyFromHex ?b k)"
    by simp
  note inst = unparsable_public_key_stops_call
    [of "''ab''" "''abc''" "''cd''" ?b FinishChan "''ref''" "''1''" "''alice''" "''ef''" 7
      "''abc''" "''10''" "''link''" "''abc''"]
  have reg: "Register ?b FinishChan ''ref'' ''1'' ''alice'' ''ab'' ''abc'' ''cd'' ''ef'' 7 =
     (Inl \<lparr>errCode = CodeFailedToGetPubKeyFromHex,
           errMsg = ''Register: failed to get Tx pub key'',
           errCause = Some ''odd length hex string: abc'',
           blockChainCode = 0, blockChainLog = []\<rparr>, [])"
    by (simp add: Register_def fixedBroadcast_def error_defs)
  from inst some have rc: "\<exists>e. Recover ?b FinishChan ''alice''
          ''ab'' ''abc'' ''cd'' ''ef'' 7 = (Inl e, [])"
    by blast
  from inst bad have vd: "\<exists>e. ValidatorDeposit ?b FinishChan ''alice'' ''10''
          ''abc'' ''link'' ''ef'' 7 = (Inl e, [])"
    by blast
  from inst bad have rv: "\<exists>e. RevokePermission ?b FinishChan ''alice''
          ''abc'' ''ef'' 7 = (Inl e, [])"
    by blast
  from bad reg rc vd rv show ?thesis by blast
qed

section \<open>The links of a post and the signable bytes\<close>












end
